theory Spec2Isabelle
  imports Complex_Main "HOL-Library.Sublist"
begin

section \<open>Python values used by qtranscode\<close>

text \<open>
  Exceptions are values: a function of the script that can raise returns
  \<open>error + 'a\<close>, with \<open>Inl\<close> for the exception. \<open>Exception msg\<close> is
  \<^verbatim>\<open>raise Exception( msg )\<close>; the other constructors are the built-in exception
  classes the script can run into. A failed \<^verbatim>\<open>assert\<close> is \<open>AssertionError\<close>
  (the script is started by \<^verbatim>\<open>#!/usr/bin/env python\<close>, so assertions are on).
\<close>

datatype error =
    AssertionError
  | TypeError
  | ValueError
  | ZeroDivisionError
  | AttributeError
  | CalledProcessError
  | Exception string

text \<open>
  An element of a command tuple. The builders put their arguments into the tuple as they
  are, so a stats path that was left at \<^verbatim>\<open>None\<close> ends up in the tuple as \<open>PyNone\<close>.
\<close>

datatype pyval = Str string | PyNone

definition of_opt :: "string option \<Rightarrow> pyval" where
  "of_opt x = (case x of None \<Rightarrow> PyNone | Some s \<Rightarrow> Str s)"

subsection \<open>\<^verbatim>\<open>str\<close> of an integer, \<^verbatim>\<open>zfill\<close>, \<^verbatim>\<open>int\<close> of a digit run\<close>

definition digit_char :: "nat \<Rightarrow> char" where
  "digit_char d = char_of (48 + d)"

definition is_digit :: "char \<Rightarrow> bool" where
  "is_digit c = (48 \<le> (of_char c :: nat) \<and> (of_char c :: nat) \<le> 57)"

definition digit_val :: "char \<Rightarrow> nat" where
  "digit_val c = of_char c - 48"

fun str_nat :: "nat \<Rightarrow> string" where
  "str_nat n = (if n < 10 then [digit_char n] else str_nat (n div 10) @ [digit_char (n mod 10)])"

declare str_nat.simps [simp del]

definition py_str :: "int \<Rightarrow> string" where
  "py_str i = (if i < 0 then CHR ''-'' # str_nat (nat (- i)) else str_nat (nat i))"

text \<open>\<^verbatim>\<open>str( None )\<close> is the text \<^verbatim>\<open>None\<close>.\<close>

definition str_opt_int :: "int option \<Rightarrow> string" where
  "str_opt_int x = (case x of None \<Rightarrow> ''None'' | Some i \<Rightarrow> py_str i)"

text \<open>
  \<^verbatim>\<open>s.zfill( w )\<close>: zeros on the left up to width \<open>w\<close>, after a leading sign if
  there is one.
\<close>

definition zfill :: "nat \<Rightarrow> string \<Rightarrow> string" where
  "zfill w s =
     (case s of
        [] \<Rightarrow> replicate w (CHR ''0'')
      | c # r \<Rightarrow>
          if c = CHR ''+'' \<or> c = CHR ''-''
          then c # replicate (w - length s) (CHR ''0'') @ r
          else replicate (w - length s) (CHR ''0'') @ s)"

text \<open>
  \<^verbatim>\<open>int( g )\<close> for a group \<open>g\<close> that a \<^verbatim>\<open>\d+\<close> or \<^verbatim>\<open>\d\d\<close> of a pattern matched:
  a run of the digits 0 to 9, read in base ten.
\<close>

definition digits_val :: "string \<Rightarrow> nat" where
  "digits_val s = foldl (\<lambda>a c. 10 * a + digit_val c) 0 s"

definition py_int :: "string \<Rightarrow> int" where
  "py_int s = int (digits_val s)"

subsection \<open>Floats\<close>

text \<open>
  Qualities, video bit rates and the probed frame rate are Python floats. IEEE
  arithmetic is not modelled: the functions below take the float type as a type parameter
  \<open>'f\<close> together with the operations they apply to it, and every theorem about them holds
  for whatever these operations compute.
  \<^item> \<open>fl_lit r\<close> is the float of the decimal literal \<open>r\<close> (\<^verbatim>\<open>63.0\<close>, \<^verbatim>\<open>6.3\<close>);
  \<^item> \<open>fl_of_int i\<close> is the float an integer operand of a float operation is turned into;
  \<^item> \<open>fl_add\<close>, \<open>fl_sub\<close>, \<open>fl_mul\<close>, \<open>fl_div\<close> are \<^verbatim>\<open>+ - * /\<close> on floats, the last
    for a divisor that is not zero (a division by zero raises, which the functions that
    divide say themselves), and \<open>fl_abs\<close> is \<^verbatim>\<open>abs\<close>;
  \<^item> \<open>fl_value x\<close> is the rational number a finite float stands for: comparisons compare
    it, \<^verbatim>\<open>math.ceil\<close> rounds it up and \<^verbatim>\<open>fractions.Fraction\<close> returns it;
  \<^item> \<open>fl_round x\<close> is \<^verbatim>\<open>round( x )\<close>, which raises on a NaN or an infinity;
  \<^item> \<open>fl_str x\<close> is \<^verbatim>\<open>str( x )\<close>.
\<close>

record 'f float_ops =
  fl_lit :: "rat \<Rightarrow> 'f"
  fl_of_int :: "int \<Rightarrow> 'f"
  fl_add :: "'f \<Rightarrow> 'f \<Rightarrow> 'f"
  fl_sub :: "'f \<Rightarrow> 'f \<Rightarrow> 'f"
  fl_mul :: "'f \<Rightarrow> 'f \<Rightarrow> 'f"
  fl_div :: "'f \<Rightarrow> 'f \<Rightarrow> 'f"
  fl_abs :: "'f \<Rightarrow> 'f"
  fl_value :: "'f \<Rightarrow> rat"
  fl_round :: "'f \<Rightarrow> error + int"
  fl_str :: "'f \<Rightarrow> string"

text \<open>\<^verbatim>\<open>str( round( x ) )\<close>.\<close>

definition str_round :: "'f float_ops \<Rightarrow> 'f \<Rightarrow> error + string" where
  "str_round F x = (case fl_round F x of Inl e \<Rightarrow> Inl e | Inr i \<Rightarrow> Inr (py_str i))"

section \<open>Text functions of the standard library\<close>

text \<open>
  A Python string is modelled as a \<open>string\<close> of HOL: a list of characters with code
  points below 256. On these, \<^verbatim>\<open>\d\<close> matches the digits 0 to 9 only.
\<close>

text \<open>\<^verbatim>\<open>s.split( c )\<close> for a one-character separator.\<close>

fun split_on :: "char \<Rightarrow> string \<Rightarrow> string list" where
  "split_on c [] = [[]]"
| "split_on c (x # xs) =
     (if x = c then [] # split_on c xs
      else (case split_on c xs of [] \<Rightarrow> [[x]] | y # ys \<Rightarrow> (x # y) # ys))"

text \<open>\<^verbatim>\<open>sep.join( xs )\<close>.\<close>

fun py_join :: "string \<Rightarrow> string list \<Rightarrow> string" where
  "py_join sep [] = []"
| "py_join sep [x] = x"
| "py_join sep (x # y # ys) = x @ sep @ py_join sep (y # ys)"

text \<open>
  \<^verbatim>\<open>s.splitlines()\<close>: the line boundaries are \<^verbatim>\<open>\n\<close>, \<^verbatim>\<open>\r\<close>, \<^verbatim>\<open>\r\n\<close>,
  \<^verbatim>\<open>\v\<close>, \<^verbatim>\<open>\f\<close>, \<^verbatim>\<open>\x1c\<close>, \<^verbatim>\<open>\x1d\<close>, \<^verbatim>\<open>\x1e\<close> and \<^verbatim>\<open>\x85\<close>; the
  boundaries are not part of the lines, and there is no empty last line.
\<close>

definition is_linebreak :: "char \<Rightarrow> bool" where
  "is_linebreak c =
     (c \<in> set [CHR 0x0A, CHR 0x0B, CHR 0x0C, CHR 0x0D, CHR 0x1C, CHR 0x1D, CHR 0x1E, CHR 0x85])"

fun splitlines :: "string \<Rightarrow> string list" where
  "splitlines [] = []"
| "splitlines (c # cs) =
     (if is_linebreak c then
        [] # splitlines (if c = CHR 0x0D \<and> take 1 cs = [CHR 0x0A] then drop 1 cs else cs)
      else (case splitlines cs of [] \<Rightarrow> [[c]] | l # ls \<Rightarrow> (c # l) # ls))"

text \<open>
  \<^verbatim>\<open>s.lower()\<close> on code points below 256: the letters A to Z and the capital letters
  of Latin-1 (0xC0 to 0xDE without the multiplication sign 0xD7) move up by 32.
\<close>

definition lower_char :: "char \<Rightarrow> char" where
  "lower_char c =
     (let n = (of_char c :: nat)
      in if (65 \<le> n \<and> n \<le> 90) \<or> (192 \<le> n \<and> n \<le> 222 \<and> n \<noteq> 215) then char_of (n + 32) else c)"

definition py_lower :: "string \<Rightarrow> string" where
  "py_lower s = map lower_char s"

text \<open>
  \<^verbatim>\<open>os.path.splitext\<close> of \<^verbatim>\<open>posixpath\<close>: the extension starts at the last dot of the
  last path component, unless only dots come before it in that component.
\<close>

fun rindex :: "char \<Rightarrow> string \<Rightarrow> nat option" where
  "rindex c [] = None"
| "rindex c (x # xs) =
     (case rindex c xs of
        Some i \<Rightarrow> Some (Suc i)
      | None \<Rightarrow> if x = c then Some 0 else None)"

definition splitext :: "string \<Rightarrow> string \<times> string" where
  "splitext p =
     (case rindex (CHR ''.'') p of
        None \<Rightarrow> (p, [])
      | Some dotIndex \<Rightarrow>
          (let filenameIndex = (case rindex (CHR ''/'') p of None \<Rightarrow> 0 | Some sepIndex \<Rightarrow> sepIndex + 1)
           in if filenameIndex \<le> dotIndex
                 \<and> list_ex (\<lambda>i. p ! i \<noteq> CHR ''.'') [filenameIndex ..< dotIndex]
              then (take dotIndex p, drop dotIndex p)
              else (p, [])))"

section \<open>The patterns of the chapter slicer\<close>

definition strip_prefix :: "string \<Rightarrow> string \<Rightarrow> string option" where
  "strip_prefix p s = (if take (length p) s = p then Some (drop (length p) s) else None)"

text \<open>A greedy \<^verbatim>\<open>\d+\<close> or \<^verbatim>\<open>\d*\<close>: the longest run of digits and what follows it.\<close>

definition span_digits :: "string \<Rightarrow> string \<times> string" where
  "span_digits s = (takeWhile is_digit s, dropWhile is_digit s)"

text \<open>
  \<^verbatim>\<open>$\<close> without the MULTILINE flag: the end of the text, or the place before a
  newline that ends the text.
\<close>

definition at_end :: "string \<Rightarrow> bool" where
  "at_end r = (r = [] \<or> r = [CHR 0x0A])"

text \<open>
  \<^verbatim>\<open>(\d\d):(\d\d):(\d\d)\.(\d\d\d)\<close> at the start of \<open>r\<close>: the four groups and the
  rest of \<open>r\<close>.
\<close>

definition match_hms :: "string \<Rightarrow> (string \<times> string \<times> string \<times> string \<times> string) option" where
  "match_hms r =
     (if 12 \<le> length r
         \<and> list_all is_digit (take 2 r) \<and> r ! 2 = CHR '':''
         \<and> list_all is_digit (take 2 (drop 3 r)) \<and> r ! 5 = CHR '':''
         \<and> list_all is_digit (take 2 (drop 6 r)) \<and> r ! 8 = CHR ''.''
         \<and> list_all is_digit (take 3 (drop 9 r))
      then Some (take 2 r, take 2 (drop 3 r), take 2 (drop 6 r), take 3 (drop 9 r), drop 12 r)
      else None)"

text \<open>
  \<^verbatim>\<open>CHAPTERS_TIME_RE.match( line )\<close>, the pattern
  \<^verbatim>\<open>^CHAPTER(\d+)=(\d\d):(\d\d):(\d\d)\.(\d\d\d)$\<close>: the five groups.
\<close>

definition match_time :: "string \<Rightarrow> (string \<times> string \<times> string \<times> string \<times> string) option" where
  "match_time line =
     (case strip_prefix ''CHAPTER'' line of
        None \<Rightarrow> None
      | Some r \<Rightarrow>
          (case span_digits r of
             (g1, r1) \<Rightarrow>
               if g1 = [] then None
               else (case strip_prefix ''='' r1 of
                       None \<Rightarrow> None
                     | Some r2 \<Rightarrow>
                         (case match_hms r2 of
                            None \<Rightarrow> None
                          | Some (g2, g3, g4, g5, rest) \<Rightarrow>
                              if at_end rest then Some (g1, g2, g3, g4, g5) else None))))"

text \<open>
  \<^verbatim>\<open>CHAPTERS_TITLE_1_RE.match( line )\<close>, the pattern
  \<^verbatim>\<open>^CHAPTER(\d+)NAME=Chapter (\d+)$\<close>: the two groups.
\<close>

definition match_title_1 :: "string \<Rightarrow> (string \<times> string) option" where
  "match_title_1 line =
     (case strip_prefix ''CHAPTER'' line of
        None \<Rightarrow> None
      | Some r \<Rightarrow>
          (case span_digits r of
             (g1, r1) \<Rightarrow>
               if g1 = [] then None
               else (case strip_prefix ''NAME=Chapter '' r1 of
                       None \<Rightarrow> None
                     | Some r2 \<Rightarrow>
                         (case span_digits r2 of
                            (g2, rest) \<Rightarrow>
                              if g2 \<noteq> [] \<and> at_end rest then Some (g1, g2) else None))))"

text \<open>
  \<^verbatim>\<open>CHAPTERS_TITLE_2_RE.match( line )\<close>, the pattern \<^verbatim>\<open>^CHAPTER(\d+)NAME=(.*)$\<close>:
  the dot matches everything but a newline.
\<close>

definition match_title_2 :: "string \<Rightarrow> (string \<times> string) option" where
  "match_title_2 line =
     (case strip_prefix ''CHAPTER'' line of
        None \<Rightarrow> None
      | Some r \<Rightarrow>
          (case span_digits r of
             (g1, r1) \<Rightarrow>
               if g1 = [] then None
               else (case strip_prefix ''NAME='' r1 of
                       None \<Rightarrow> None
                     | Some r2 \<Rightarrow>
                         if at_end (dropWhile (\<lambda>c. c \<noteq> CHR 0x0A) r2)
                         then Some (g1, takeWhile (\<lambda>c. c \<noteq> CHR 0x0A) r2)
                         else None)))"

text \<open>
  The search for the start chapter,
  \<^verbatim>\<open>re.search( r'^CHAPTER' + key + r'=(\d\d):(\d\d):(\d\d)\.(\d\d\d)$', chapters, re.M )\<close>
  with \<^verbatim>\<open>key = str( chap_start ).zfill( 2 )\<close>. With the MULTILINE flag \<^verbatim>\<open>^\<close> matches at
  the start of the text and after every \<^verbatim>\<open>\n\<close>, and \<^verbatim>\<open>$\<close> at its end and before every
  \<^verbatim>\<open>\n\<close>; the pattern itself matches no \<^verbatim>\<open>\n\<close>. So the search returns the first of
  the pieces between \<^verbatim>\<open>\n\<close>s that the pattern matches as a whole. The key is a run
  of digits, after a minus sign for a negative start chapter; in a pattern both stand for
  themselves.
\<close>

definition match_start :: "string \<Rightarrow> string \<Rightarrow> (string \<times> string \<times> string \<times> string) option" where
  "match_start key piece =
     (case strip_prefix (''CHAPTER'' @ key @ ''='') piece of
        None \<Rightarrow> None
      | Some r \<Rightarrow>
          (case match_hms r of
             None \<Rightarrow> None
           | Some (g1, g2, g3, g4, rest) \<Rightarrow> if rest = [] then Some (g1, g2, g3, g4) else None))"

fun first_match :: "('a \<Rightarrow> 'b option) \<Rightarrow> 'a list \<Rightarrow> 'b option" where
  "first_match f [] = None"
| "first_match f (x # xs) = (case f x of Some y \<Rightarrow> Some y | None \<Rightarrow> first_match f xs)"

definition search_start :: "string \<Rightarrow> string \<Rightarrow> (string \<times> string \<times> string \<times> string) option" where
  "search_start key chapters = first_match (match_start key) (split_on (CHR 0x0A) chapters)"

section \<open>The chapter slicer\<close>

text \<open>
  A \<^verbatim>\<open>datetime.timedelta\<close> is a whole number of microseconds. Its attribute
  \<^verbatim>\<open>seconds\<close> is the seconds within the day (0 to 86399) and \<^verbatim>\<open>microseconds\<close> the
  microseconds within the second; the days are a third attribute, which the script does
  not read.
\<close>

type_synonym timedelta = int

definition timedelta :: "int \<Rightarrow> int \<Rightarrow> int \<Rightarrow> int \<Rightarrow> timedelta" where
  "timedelta hours minutes seconds milliseconds =
     ((hours * 60 + minutes) * 60 + seconds) * 1000000 + milliseconds * 1000"

definition td_seconds :: "timedelta \<Rightarrow> int" where
  "td_seconds t = (t div 1000000) mod 86400"

definition td_microseconds :: "timedelta \<Rightarrow> int" where
  "td_microseconds t = t mod 1000000"

text \<open>The index offset and the time offset, computed before the loop over the lines.\<close>

definition chapter_offsets :: "int option \<Rightarrow> int option \<Rightarrow> string \<Rightarrow> error + (int \<times> timedelta)" where
  "chapter_offsets chap_start chap_end chapters =
     (if chap_start \<noteq> None \<or> chap_end \<noteq> None then
        (case chap_start of
           Some s \<Rightarrow>
             (case search_start (zfill 2 (py_str s)) chapters of
                None \<Rightarrow> Inl (Exception ''Start chapter could not be found!'')
              | Some (g1, g2, g3, g4) \<Rightarrow>
                  Inr (s - 1, timedelta (py_int g1) (py_int g2) (py_int g3) (py_int g4)))
         | None \<Rightarrow> Inr (0, 0))
      else Inr (0, 0))"

text \<open>
  The condition every branch of the loop puts on group 1:
  \<^verbatim>\<open>( chap_start is None or int( g ) >= chap_start ) and ( chap_end is None or int( g ) <= chap_end )\<close>.
\<close>

definition in_range :: "int option \<Rightarrow> int option \<Rightarrow> int \<Rightarrow> bool" where
  "in_range chap_start chap_end i =
     ((case chap_start of None \<Rightarrow> True | Some s \<Rightarrow> i \<ge> s)
      \<and> (case chap_end of None \<Rightarrow> True | Some e \<Rightarrow> i \<le> e))"

definition format_time :: "timedelta \<Rightarrow> string" where
  "format_time new_time =
     zfill 2 (py_str (td_seconds new_time div 3600)) @ '':''
     @ zfill 2 (py_str (td_seconds new_time div 60 mod 60)) @ '':''
     @ zfill 2 (py_str (td_seconds new_time mod 60)) @ ''.''
     @ zfill 3 (py_str (td_microseconds new_time div 1000))"

text \<open>What one line of the input adds to \<^verbatim>\<open>new_chapters\<close> (the body of the loop).\<close>

definition slice_line :: "int option \<Rightarrow> int option \<Rightarrow> int \<Rightarrow> timedelta \<Rightarrow> string \<Rightarrow> string" where
  "slice_line chap_start chap_end offset_index offset_time line =
     (case Option.bind (match_time line)
             (\<lambda>g. if in_range chap_start chap_end (py_int (fst g)) then Some g else None) of
        Some (g1, g2, g3, g4, g5) \<Rightarrow>
          (let new_time = timedelta (py_int g2) (py_int g3) (py_int g4) (py_int g5) - offset_time
           in ''CHAPTER'' @ zfill 2 (py_str (py_int g1 - offset_index)) @ ''='' @ format_time new_time
              @ [CHR 0x0A])
      | None \<Rightarrow>
          (case Option.bind (match_title_1 line)
                  (\<lambda>g. if in_range chap_start chap_end (py_int (fst g)) then Some g else None) of
             Some (g1, g2) \<Rightarrow>
               ''CHAPTER'' @ zfill 2 (py_str (py_int g1 - offset_index)) @ ''NAME=Chapter ''
               @ zfill 2 (py_str (py_int g2 - offset_index)) @ [CHR 0x0A]
           | None \<Rightarrow>
               (case Option.bind (match_title_2 line)
                       (\<lambda>g. if in_range chap_start chap_end (py_int (fst g)) then Some g else None) of
                  Some (g1, g2) \<Rightarrow>
                    ''CHAPTER'' @ zfill 2 (py_str (py_int g1 - offset_index)) @ ''NAME='' @ g2
                    @ [CHR 0x0A]
                | None \<Rightarrow> [])))"

fun slice_lines :: "int option \<Rightarrow> int option \<Rightarrow> int \<Rightarrow> timedelta \<Rightarrow> string list \<Rightarrow> string" where
  "slice_lines chap_start chap_end offset_index offset_time [] = []"
| "slice_lines chap_start chap_end offset_index offset_time (line # lines) =
     slice_line chap_start chap_end offset_index offset_time line
     @ slice_lines chap_start chap_end offset_index offset_time lines"

text \<open>
  The text \<^verbatim>\<open>extract_chapters\<close> writes to the chapter file, from the text \<open>chapters\<close>
  the extraction tool printed.
\<close>

definition new_chapters :: "int option \<Rightarrow> int option \<Rightarrow> string \<Rightarrow> error + string" where
  "new_chapters chap_start chap_end chapters =
     (case chapter_offsets chap_start chap_end chapters of
        Inl e \<Rightarrow> Inl e
      | Inr (offset_index, offset_time) \<Rightarrow>
          Inr (slice_lines chap_start chap_end offset_index offset_time (splitlines chapters)))"

section \<open>Chapter files as lists of records\<close>

text \<open>
  The spec describes the slicer on records: a chapter file is a sequence of timestamp
  records (an index and a time) and title records (an index and either a generated
  label \<^verbatim>\<open>Chapter N\<close> or a free title), written as the lines
  \<^verbatim>\<open>CHAPTERnn=HH:MM:SS.mmm\<close> and \<^verbatim>\<open>CHAPTERnnNAME=<title>\<close>. The definitions of
  this section follow the spec's words, not the code: they are what the slicer of the
  code is compared with. A time is a number of milliseconds.
\<close>

datatype chapter_record =
    Timestamp int int
  | AutoTitle int int
  | FreeTitle int string

text \<open>\<^verbatim>\<open>HH:MM:SS.mmm\<close>, two digits each and three for the milliseconds.\<close>

definition render_ms :: "int \<Rightarrow> string" where
  "render_ms t =
     zfill 2 (py_str (t div 3600000)) @ '':'' @ zfill 2 (py_str (t div 60000 mod 60)) @ '':''
     @ zfill 2 (py_str (t div 1000 mod 60)) @ ''.'' @ zfill 3 (py_str (t mod 1000))"

fun render_line :: "chapter_record \<Rightarrow> string" where
  "render_line (Timestamp i t) = ''CHAPTER'' @ zfill 2 (py_str i) @ ''='' @ render_ms t"
| "render_line (AutoTitle i n) = ''CHAPTER'' @ zfill 2 (py_str i) @ ''NAME=Chapter '' @ zfill 2 (py_str n)"
| "render_line (FreeTitle i s) = ''CHAPTER'' @ zfill 2 (py_str i) @ ''NAME='' @ s"

text \<open>The text of a chapter file: every line ends with a newline.\<close>

definition render_chapters :: "chapter_record list \<Rightarrow> string" where
  "render_chapters rs = concat (map (\<lambda>r. render_line r @ [CHR 0x0A]) rs)"

text \<open>A title that reads \<^verbatim>\<open>Chapter\<close>, a blank and a run of digits.\<close>

definition auto_label :: "string \<Rightarrow> bool" where
  "auto_label s =
     (case strip_prefix ''Chapter '' s of None \<Rightarrow> False | Some ds \<Rightarrow> ds \<noteq> [] \<and> list_all is_digit ds)"

text \<open>
  The records of a well-formed chapter file: indices and label numbers are not negative,
  a time is below 100 hours (so that its hours take two digits), a free title has no line
  boundary in it and is not itself of the form \<^verbatim>\<open>Chapter N\<close> (such a title is an
  \<open>AutoTitle\<close>, and is written with its number padded to two digits).
\<close>

fun well_formed :: "chapter_record \<Rightarrow> bool" where
  "well_formed (Timestamp i t) = (0 \<le> i \<and> 0 \<le> t \<and> t < 360000000)"
| "well_formed (AutoTitle i n) = (0 \<le> i \<and> 0 \<le> n)"
| "well_formed (FreeTitle i s) = (0 \<le> i \<and> \<not> list_ex is_linebreak s \<and> \<not> auto_label s)"

fun rec_index :: "chapter_record \<Rightarrow> int" where
  "rec_index (Timestamp i t) = i"
| "rec_index (AutoTitle i n) = i"
| "rec_index (FreeTitle i s) = i"

text \<open>
  ``emit a new record with \<open>index - offset\<close> applied to both index-bearing fields and
  \<open>timestamp - timeOffset\<close> applied to timestamps''.
\<close>

fun rebase :: "int \<Rightarrow> int \<Rightarrow> chapter_record \<Rightarrow> chapter_record" where
  "rebase offset time_offset (Timestamp i t) = Timestamp (i - offset) (t - time_offset)"
| "rebase offset time_offset (AutoTitle i n) = AutoTitle (i - offset) (n - offset)"
| "rebase offset time_offset (FreeTitle i s) = FreeTitle (i - offset) s"

text \<open>
  ``a time offset equal to the timestamp of the start entry (or zero duration if
  unset)'': the time of the first timestamp record with the start index; \<open>None\<close> when a
  start index is set and there is no such record.
\<close>

fun start_time :: "int option \<Rightarrow> chapter_record list \<Rightarrow> int option" where
  "start_time None rs = Some 0"
| "start_time (Some s) [] = None"
| "start_time (Some s) (Timestamp i t # rs) = (if i = s then Some t else start_time (Some s) rs)"
| "start_time (Some s) (AutoTitle i n # rs) = start_time (Some s) rs"
| "start_time (Some s) (FreeTitle i n # rs) = start_time (Some s) rs"

text \<open>``an index offset equal to \<open>(startIndex - 1)\<close> (or 0 if unset)''.\<close>

definition index_offset :: "int option \<Rightarrow> int" where
  "index_offset chap_start = (case chap_start of None \<Rightarrow> 0 | Some s \<Rightarrow> s - 1)"

text \<open>
  The slice the spec describes: the records whose index is within the range, in their
  order, each rebased.
\<close>

definition slice_spec :: "int option \<Rightarrow> int option \<Rightarrow> int \<Rightarrow> chapter_record list \<Rightarrow> chapter_record list" where
  "slice_spec chap_start chap_end time_offset rs =
     map (rebase (index_offset chap_start) time_offset)
       (filter (\<lambda>r. in_range chap_start chap_end (rec_index r)) rs)"

text \<open>
  A retained timestamp is not before the time offset and less than 24 hours after it:
  the rebased time is then a time of day, which is what the slicer prints.
\<close>

fun time_of_day :: "int option \<Rightarrow> int option \<Rightarrow> int \<Rightarrow> chapter_record \<Rightarrow> bool" where
  "time_of_day chap_start chap_end time_offset (Timestamp i t) =
     (in_range chap_start chap_end i \<longrightarrow> time_offset \<le> t \<and> t - time_offset < 86400000)"
| "time_of_day chap_start chap_end time_offset (AutoTitle i n) = True"
| "time_of_day chap_start chap_end time_offset (FreeTitle i s) = True"

section \<open>The decode command\<close>

text \<open>
  The picture options as the argument parser delivers them: \<^verbatim>\<open>--scale\<close> and
  \<^verbatim>\<open>--rate\<close> are two integers, \<^verbatim>\<open>--crop\<close> is four.
\<close>

definition list2 :: "int \<times> int \<Rightarrow> int list" where
  "list2 p = [fst p, snd p]"

definition list4 :: "int \<times> int \<times> int \<times> int \<Rightarrow> int list" where
  "list4 c = (case c of (w, h, x, y) \<Rightarrow> [w, h, x, y])"

text \<open>The string \<^verbatim>\<open>filters\<close> of \<^verbatim>\<open>get_decode_video_command\<close>, statement by statement.\<close>

definition decode_filters ::
  "bool \<Rightarrow> bool \<Rightarrow> (int \<times> int) option \<Rightarrow> (int \<times> int \<times> int \<times> int) option \<Rightarrow> bool \<Rightarrow> bool \<Rightarrow> string" where
  "decode_filters denoise pp scale crop deint ivtc =
     (let filters = ''format=i420'';
          filters =
            (if ivtc then
               (case crop of
                  None \<Rightarrow> filters @ '',filmdint=fast=0,''
                | Some c \<Rightarrow> filters @ '',filmdint=fast=0/crop='' @ py_join '':'' (map py_str (list4 c)))
             else filters);
          filters = (if deint then filters @ '',yadif=1'' else filters);
          filters =
            (case crop of
               Some c \<Rightarrow> if \<not> ivtc then filters @ '',crop='' @ py_join '':'' (map py_str (list4 c)) else filters
             | None \<Rightarrow> filters);
          filters =
            (case scale of
               Some sc \<Rightarrow> filters @ '',scale='' @ py_join '':'' (map py_str (list2 sc))
             | None \<Rightarrow> filters);
          filters = (if pp then filters @ '',pp=ha/va/dr'' else filters);
          filters = (if denoise then filters @ '',hqdn3d'' else filters)
      in filters @ '',harddup'')"




text \<open>
  The pieces between the commas of the string the code builds. They are the stages of
  the spec's chain, and one empty piece more after the telecine stage when no crop is
  requested: that branch of the code ends its piece with a comma, and the next piece
  brings its own.
\<close>

definition code_pieces ::
  "bool \<Rightarrow> bool \<Rightarrow> (int \<times> int) option \<Rightarrow> (int \<times> int \<times> int \<times> int) option \<Rightarrow> bool \<Rightarrow> bool \<Rightarrow> string list" where
  "code_pieces denoise pp scale crop deint ivtc =
     [''format=i420'']
     @ (if ivtc then
          (case crop of
             None \<Rightarrow> [''filmdint=fast=0'', []]
           | Some c \<Rightarrow> [''filmdint=fast=0/crop='' @ py_join '':'' (map py_str (list4 c))])
        else [])
     @ (if deint then [''yadif=1''] else [])
     @ (case crop of
          Some c \<Rightarrow> if ivtc then [] else [''crop='' @ py_join '':'' (map py_str (list4 c))]
        | None \<Rightarrow> [])
     @ (case scale of Some sc \<Rightarrow> [''scale='' @ py_join '':'' (map py_str (list2 sc))] | None \<Rightarrow> [])
     @ (if pp then [''pp=ha/va/dr''] else [])
     @ (if denoise then [''hqdn3d''] else [])
     @ [''harddup'']"

text \<open>The name of a stage: what stands before its \<^verbatim>\<open>=\<close>.\<close>

definition stage_name :: "string \<Rightarrow> string" where
  "stage_name st = takeWhile (\<lambda>c. c \<noteq> CHR ''='') st"


text \<open>
  The stages of a filter string, as mencoder's \<^verbatim>\<open>-vf\<close> list has them: the pieces
  between the commas.
\<close>

definition filter_stages :: "string \<Rightarrow> string list" where
  "filter_stages filters = split_on (CHR '','') filters"

section \<open>The output container and the final frame rate\<close>

text \<open>
  How \<^verbatim>\<open>main\<close> ends: it returns a status, or an exception leaves it (and the
  interpreter exits with status 1).
\<close>

datatype stop = Return int | Raise error


text \<open>
  The block ``Determine output container'' of \<^verbatim>\<open>main\<close>: the new \<^verbatim>\<open>output\<close> and
  \<^verbatim>\<open>out_container\<close>, or the status 1 it returns.
\<close>

definition determine_container :: "string option \<Rightarrow> string \<Rightarrow> stop + (string \<times> string)" where
  "determine_container container output =
     (case splitext output of
        (output_prefix, output_suffix) \<Rightarrow>
          if container = Some ''.mkv'' then Inr (output_prefix @ ''.mkv'', ''mkv'')
          else if container = Some ''.webm'' then Inr (output_prefix @ ''.webm'', ''webm'')
          else if container = Some ''.mp4'' then Inr (output_prefix @ ''.mp4'', ''mp4'')
          else if py_lower output_suffix \<notin> set [''.mkv'', ''.webm'', ''.mp4''] then Inl (Return 1)
          else Inr (output, py_lower (drop 1 output_suffix)))"

text \<open>\<^verbatim>\<open>fractions.Fraction( n, d )\<close>.\<close>

definition fraction :: "int \<Rightarrow> int \<Rightarrow> error + rat" where
  "fraction n d = (if d = 0 then Inl ZeroDivisionError else Inr (Fract n d))"



section \<open>Video encoders\<close>

definition devnull :: string where
  "devnull = ''/dev/null''"

text \<open>
  The two assertions every video builder starts with:
  \<^verbatim>\<open>assert not ( ( cur_pass is not None ) and ( stat_path is not None ) )\<close> and
  \<^verbatim>\<open>assert ( cur_pass is None ) or ( cur_pass == 1 ) or ( cur_pass == 2 )\<close>.
\<close>

definition pass_asserts :: "int option \<Rightarrow> string option \<Rightarrow> bool" where
  "pass_asserts cur_pass stat_path =
     (\<not> (cur_pass \<noteq> None \<and> stat_path \<noteq> None)
      \<and> (cur_pass = None \<or> cur_pass = Some 1 \<or> cur_pass = Some 2))"

text \<open>A frame rate is a \<^verbatim>\<open>fractions.Fraction\<close>: a rational in lowest terms.\<close>

definition numerator :: "rat \<Rightarrow> int" where
  "numerator r = fst (quotient_of r)"

definition denominator :: "rat \<Rightarrow> int" where
  "denominator r = snd (quotient_of r)"

definition get_encode_av1_command ::
  "'f float_ops \<Rightarrow> string \<Rightarrow> int \<times> int \<Rightarrow> rat \<Rightarrow> 'f option \<Rightarrow> 'f option \<Rightarrow> int option
     \<Rightarrow> int option \<Rightarrow> string option \<Rightarrow> error + pyval list" where
  "get_encode_av1_command F out_path dimensions framerate quality bitrate speed cur_pass stat_path =
     (if \<not> pass_asserts cur_pass stat_path then Inl AssertionError
      else
        case (case quality of
                Some q \<Rightarrow>
                  (case str_round F (fl_sub F (fl_lit F 63) (fl_mul F q (fl_lit F (63 / 10)))) of
                     Inl e \<Rightarrow> Inl e
                   | Inr s \<Rightarrow> Inr [''--rc'', ''0'', ''--qp'', s])
              | None \<Rightarrow>
                  (case bitrate of
                     Some b \<Rightarrow> Inr [''--rc'', ''1'', ''--tbr'', fl_str F b]
                   | None \<Rightarrow> Inr []))
        of
          Inl e \<Rightarrow> Inl e
        | Inr qual_args \<Rightarrow>
            let pass_args =
              (if cur_pass = Some 1 then
                 [Str ''-b'', Str devnull, Str ''--irefresh-type'', Str ''2'', Str ''--pass'', Str ''1'',
                  Str ''--stat-file'', of_opt stat_path]
               else if cur_pass = Some 2 then
                 [Str ''-b'', Str out_path, Str ''--irefresh-type'', Str ''2'', Str ''--pass'', Str ''2'',
                  Str ''--stat-file'', of_opt stat_path]
               else [Str ''-b'', Str out_path])
            in Inr (map Str
                      [''SvtAv1EncApp'', ''-i'', ''stdin'', ''-w'', py_str (fst dimensions),
                       ''-h'', py_str (snd dimensions), ''--fps-num'', py_str (numerator framerate),
                       ''--fps-denom'', py_str (denominator framerate), ''--preset'', str_opt_int speed]
                    @ map Str qual_args @ pass_args))"

definition get_encode_h264_command ::
  "'f float_ops \<Rightarrow> string \<Rightarrow> int \<times> int \<Rightarrow> rat \<Rightarrow> rat \<Rightarrow> 'f option \<Rightarrow> 'f option \<Rightarrow> int option
     \<Rightarrow> int option \<Rightarrow> string option \<Rightarrow> error + pyval list" where
  "get_encode_h264_command F out_path dimensions framerate sar quality bitrate speed cur_pass stat_path =
     (if \<not> pass_asserts cur_pass stat_path then Inl AssertionError
      else
        case (case quality of
                Some q \<Rightarrow>
                  (case str_round F (fl_sub F (fl_lit F 51) (fl_mul F q (fl_lit F (51 / 10)))) of
                     Inl e \<Rightarrow> Inl e
                   | Inr s \<Rightarrow> Inr [''--crf'', s])
              | None \<Rightarrow>
                  (case bitrate of
                     Some b \<Rightarrow> Inr [''--bitrate'', fl_str F b]
                   | None \<Rightarrow> Inr []))
        of
          Inl e \<Rightarrow> Inl e
        | Inr qual_args \<Rightarrow>
            let pass_args =
              (if cur_pass = Some 1 then
                 [Str ''--pass'', Str ''1'', Str ''--stats'', of_opt stat_path, Str ''--output'', Str devnull]
               else if cur_pass = Some 2 then
                 [Str ''--pass'', Str ''2'', Str ''--stats'', of_opt stat_path, Str ''--output'', Str out_path]
               else [Str ''--output'', Str out_path])
            in Inr (map Str
                      [''x264'', ''--profile'', ''high'', ''--level'', ''4.2'', ''--bluray-compat'',
                       ''--muxer'', ''raw'', ''--demuxer'', ''raw'', ''--input-csp'', ''i420'',
                       ''--input-res'', py_str (fst dimensions) @ ''x'' @ py_str (snd dimensions),
                       ''--sar'', py_str (numerator sar) @ '':'' @ py_str (denominator sar),
                       ''--fps'', py_str (numerator framerate) @ ''/'' @ py_str (denominator framerate),
                       ''-'']
                    @ map Str qual_args @ pass_args))"

text \<open>\<^verbatim>\<open>'--fpf=' + stat_path\<close> raises a TypeError when \<^verbatim>\<open>stat_path\<close> is None.\<close>

definition vpx_pass_args :: "string \<Rightarrow> int option \<Rightarrow> string option \<Rightarrow> error + string list" where
  "vpx_pass_args out_path cur_pass stat_path =
     (if cur_pass = Some 1 then
        (case stat_path of
           None \<Rightarrow> Inl TypeError
         | Some sp \<Rightarrow>
             Inr [''--output='' @ devnull, ''--passes=2'', ''--pass=1'', ''--fpf='' @ sp, ''--auto-alt-ref=1''])
      else if cur_pass = Some 2 then
        (case stat_path of
           None \<Rightarrow> Inl TypeError
         | Some sp \<Rightarrow>
             Inr [''--output='' @ out_path, ''--passes=2'', ''--pass=2'', ''--fpf='' @ sp, ''--auto-alt-ref=1''])
      else Inr [''--output='' @ out_path, ''--passes=1''])"

definition vpx_speed_args :: "int option \<Rightarrow> string list" where
  "vpx_speed_args speed =
     (if speed = Some 0 then [''--best'']
      else if speed = Some 1 then [''--good'']
      else if speed = Some 2 then [''--rt'']
      else [])"

text \<open>
  The rate-control arguments of the VP9 builder. Each of the two later statements
  \<^emph>\<open>assigns\<close> \<^verbatim>\<open>qual_args\<close> (\<^verbatim>\<open>qual_args = ( ... )\<close>), so the last one that runs is
  all that is left.
\<close>

definition vp9_qual_args :: "'f float_ops \<Rightarrow> 'f option \<Rightarrow> 'f option \<Rightarrow> error + string list" where
  "vp9_qual_args F quality bitrate =
     (let qual_args0 =
        (if quality \<noteq> None \<and> bitrate \<noteq> None then [''--end-usage=cq'']
         else if quality \<noteq> None then [''--end-usage=q'']
         else if bitrate \<noteq> None then [''--end-usage=vbr'']
         else [])
      in case (case quality of
                 None \<Rightarrow> Inr qual_args0
               | Some q \<Rightarrow>
                   (case str_round F (fl_sub F (fl_lit F 63) (fl_mul F q (fl_lit F (63 / 10)))) of
                      Inl e \<Rightarrow> Inl e
                    | Inr s \<Rightarrow> Inr [''--cq-level='' @ s]))
         of
           Inl e \<Rightarrow> Inl e
         | Inr qual_args1 \<Rightarrow>
             (case bitrate of
                None \<Rightarrow> Inr qual_args1
              | Some b \<Rightarrow> Inr [''--target-bitrate='' @ fl_str F b]))"

text \<open>The same in the VP8 builder, which \<^emph>\<open>appends\<close> (\<^verbatim>\<open>qual_args += ( ... )\<close>).\<close>

definition vp8_qual_args :: "'f float_ops \<Rightarrow> 'f option \<Rightarrow> 'f option \<Rightarrow> error + string list" where
  "vp8_qual_args F quality bitrate =
     (let qual_args0 =
        (if quality \<noteq> None \<and> bitrate \<noteq> None then [''--end-usage=cq'']
         else if quality \<noteq> None then [''--end-usage=q'']
         else if bitrate \<noteq> None then [''--end-usage=vbr'']
         else [])
      in case (case quality of
                 None \<Rightarrow> Inr qual_args0
               | Some q \<Rightarrow>
                   (case str_round F (fl_sub F (fl_lit F 63) (fl_mul F q (fl_lit F (63 / 10)))) of
                      Inl e \<Rightarrow> Inl e
                    | Inr s \<Rightarrow> Inr (qual_args0 @ [''--cq-level='' @ s])))
         of
           Inl e \<Rightarrow> Inl e
         | Inr qual_args1 \<Rightarrow>
             (case bitrate of
                None \<Rightarrow> Inr qual_args1
              | Some b \<Rightarrow> Inr (qual_args1 @ [''--target-bitrate='' @ fl_str F b])))"

text \<open>
  The tail both vpxenc builders share; \<open>codec\<close> is \<^verbatim>\<open>vp9\<close> or \<^verbatim>\<open>vp8\<close> and
  \<open>cpu_count\<close> is \<^verbatim>\<open>multiprocessing.cpu_count()\<close>.
\<close>

definition vpx_command ::
  "string \<Rightarrow> nat \<Rightarrow> int \<times> int \<Rightarrow> rat \<Rightarrow> string list \<Rightarrow> string list \<Rightarrow> string list \<Rightarrow> pyval list" where
  "vpx_command codec cpu_count dimensions framerate pass_args qual_args speed_args =
     map Str
       ([''vpxenc'', ''--codec='' @ codec, ''--threads='' @ py_str (int cpu_count)]
        @ pass_args
        @ [''--ivf'', ''--width='' @ py_str (fst dimensions), ''--height='' @ py_str (snd dimensions),
           ''--fps='' @ py_str (numerator framerate) @ ''/'' @ py_str (denominator framerate)]
        @ qual_args @ speed_args @ [''-''])"

definition get_encode_vp9_command ::
  "'f float_ops \<Rightarrow> nat \<Rightarrow> string \<Rightarrow> int \<times> int \<Rightarrow> rat \<Rightarrow> 'f option \<Rightarrow> 'f option \<Rightarrow> int option
     \<Rightarrow> int option \<Rightarrow> string option \<Rightarrow> error + pyval list" where
  "get_encode_vp9_command F cpu_count out_path dimensions framerate quality bitrate speed cur_pass stat_path =
     (if \<not> pass_asserts cur_pass stat_path then Inl AssertionError
      else
        case vp9_qual_args F quality bitrate of
          Inl e \<Rightarrow> Inl e
        | Inr qual_args \<Rightarrow>
            (case vpx_pass_args out_path cur_pass stat_path of
               Inl e \<Rightarrow> Inl e
             | Inr pass_args \<Rightarrow>
                 Inr (vpx_command ''vp9'' cpu_count dimensions framerate pass_args qual_args
                        (vpx_speed_args speed))))"

definition get_encode_vp8_command ::
  "'f float_ops \<Rightarrow> nat \<Rightarrow> string \<Rightarrow> int \<times> int \<Rightarrow> rat \<Rightarrow> 'f option \<Rightarrow> 'f option \<Rightarrow> int option
     \<Rightarrow> int option \<Rightarrow> string option \<Rightarrow> error + pyval list" where
  "get_encode_vp8_command F cpu_count out_path dimensions framerate quality bitrate speed cur_pass stat_path =
     (if \<not> pass_asserts cur_pass stat_path then Inl AssertionError
      else
        case vp8_qual_args F quality bitrate of
          Inl e \<Rightarrow> Inl e
        | Inr qual_args \<Rightarrow>
            (case vpx_pass_args out_path cur_pass stat_path of
               Inl e \<Rightarrow> Inl e
             | Inr pass_args \<Rightarrow>
                 Inr (vpx_command ''vp8'' cpu_count dimensions framerate pass_args qual_args
                        (vpx_speed_args speed))))"

section \<open>The pipe transcoder\<close>

text \<open>
  What the script does to the outside world, in order: \<open>Spawn\<close> is a
  \<^verbatim>\<open>subprocess.Popen\<close>, \<open>Reap\<close> a \<^verbatim>\<open>wait()\<close> on that process (which is how its
  exit status is observed), \<open>Call\<close> a \<^verbatim>\<open>check_call\<close> or \<^verbatim>\<open>check_output\<close>, which
  starts a process and waits for it, \<open>WriteFile\<close> a file written by the script itself.
\<close>

datatype stage = Decoder | Encoder

datatype event = Spawn stage "pyval list" | Reap stage | Call "string list" | WriteFile string string

text \<open>
  \<open>dec_status\<close> and \<open>enc_status\<close> are the exit statuses the two processes end with.
  \<^verbatim>\<open>Popen\<close> raises a TypeError on a command that holds \<^verbatim>\<open>None\<close>; a program that
  cannot be started at all is not modelled. The function returns the events in the order
  they happen together with the result.
\<close>

definition has_none :: "pyval list \<Rightarrow> bool" where
  "has_none cmd = (PyNone \<in> set cmd)"

definition transcode ::
  "int \<Rightarrow> int \<Rightarrow> pyval list \<Rightarrow> pyval list \<Rightarrow> event list \<times> (error + unit)" where
  "transcode dec_status enc_status dec_cmd enc_cmd =
     (if has_none dec_cmd then ([], Inl TypeError)
      else if has_none enc_cmd then ([Spawn Decoder dec_cmd], Inl TypeError)
      else if dec_status \<noteq> 0 then
        ([Spawn Decoder dec_cmd, Spawn Encoder enc_cmd, Reap Decoder],
         Inl (Exception ''Error occurred in decoding process!''))
      else if enc_status \<noteq> 0 then
        ([Spawn Decoder dec_cmd, Spawn Encoder enc_cmd, Reap Decoder, Reap Encoder],
         Inl (Exception ''Error occurred in encoding process!''))
      else
        ([Spawn Decoder dec_cmd, Spawn Encoder enc_cmd, Reap Decoder, Reap Encoder], Inr ()))"

section \<open>Audio encoders\<close>









section \<open>Runs: what the script does to the outside world\<close>

text \<open>
  Everything outside the script is a parameter of the model, collected in a record:
  what the programs it starts print and exit with, and what the library reports about
  the machine. The regular expressions that \<^verbatim>\<open>AVExtractor.__init__\<close> runs over the
  output of the probes are not modelled; the world says for each of them whether it
  matched and what its groups were.
  \<^item> \<open>w_exit_status cmd\<close>: the exit status of a process started with the command;
  \<^item> \<open>w_probe_video\<close>: the match of the \<^verbatim>\<open>VIDEO:\<close> line in the output of the mplayer
    probe (codec, width, height and the float of group 4, the frames per second);
  \<^item> \<open>w_probe_audio\<close>, \<open>w_probe_audio_codec\<close>: the matches of the \<^verbatim>\<open>AUDIO:\<close> line
    (sample rate, channels) and of the \<^verbatim>\<open>Selected audio codec\<close> line;
  \<^item> \<open>w_probe_dvd_subtitles\<close>: whether \<^verbatim>\<open>number of subtitles on disk: [1-9]\<close> is found;
  \<^item> \<open>w_mkv_chapters\<close>, \<open>w_mkv_attachments\<close>, \<open>w_mkv_subtitle_track\<close>,
    \<open>w_mkv_audio_track\<close>: what the output of \<^verbatim>\<open>mkvmerge --identify\<close> holds (the text
    \<^verbatim>\<open>Chapters: \<close>, the number of \<^verbatim>\<open>Attachment ID \<close>, group 1 of the first subtitle
    track line, group 1 of the first audio track line);
  \<^item> \<open>w_chapters_text\<close>: what the chapter extraction tool prints;
  \<^item> \<open>w_attachment_files\<close>: the sorted files of the attachment directory;
  \<^item> \<open>w_which\<close>, \<open>w_cpu_count\<close>, \<open>w_abspath\<close>, \<open>w_work_dir\<close>: \<^verbatim>\<open>shutil.which\<close>,
    \<^verbatim>\<open>multiprocessing.cpu_count()\<close>, \<^verbatim>\<open>os.path.abspath\<close> and the name of the temporary
    directory.
\<close>

record 'f world =
  w_float_ops :: "'f float_ops"
  w_cpu_count :: nat
  w_which :: "string \<Rightarrow> bool"
  w_abspath :: "string \<Rightarrow> string"
  w_work_dir :: string
  w_attachment_files :: "string list"
  w_exit_status :: "pyval list \<Rightarrow> int"
  w_probe_video :: "(string \<times> int \<times> int \<times> 'f) option"
  w_probe_audio :: "(int \<times> int) option"
  w_probe_audio_codec :: "string option"
  w_probe_dvd_subtitles :: bool
  w_mkv_chapters :: bool
  w_mkv_attachments :: nat
  w_mkv_subtitle_track :: "int option"
  w_mkv_audio_track :: "string option"
  w_chapters_text :: string

text \<open>
  A run is the list of events so far and either the way \<^verbatim>\<open>main\<close> stopped or a value
  to go on with.
\<close>

type_synonym 'a run = "event list \<times> (stop + 'a)"

definition ret :: "'a \<Rightarrow> 'a run" where
  "ret x = ([], Inr x)"

definition raise :: "error \<Rightarrow> 'a run" where
  "raise e = ([], Inl (Raise e))"

definition bind_run :: "'a run \<Rightarrow> ('a \<Rightarrow> 'b run) \<Rightarrow> 'b run" where
  "bind_run m f =
     (case m of
        (es, Inl st) \<Rightarrow> (es, Inl st)
      | (es, Inr x) \<Rightarrow> (case f x of (es', r) \<Rightarrow> (es @ es', r)))"

definition of_result :: "error + 'a \<Rightarrow> 'a run" where
  "of_result r = (case r of Inl e \<Rightarrow> raise e | Inr x \<Rightarrow> ret x)"

text \<open>\<^verbatim>\<open>subprocess.check_call\<close> and \<^verbatim>\<open>check_output\<close>: a non-zero exit status raises.\<close>

definition check_call :: "'f world \<Rightarrow> string list \<Rightarrow> unit run" where
  "check_call W cmd =
     ([Call cmd], if w_exit_status W (map Str cmd) \<noteq> 0 then Inl (Raise CalledProcessError) else Inr ())"



section \<open>The source extractor\<close>

text \<open>
  \<^verbatim>\<open>s.upper()\<close> on code points below 256, where one character is turned into one
  character below 256: the letters a to z and the small letters of Latin-1 (0xE0 to 0xFE
  without the division sign 0xF7) move down by 32. Three characters are left as they
  are here and are not in Python (the sharp s becomes \<^verbatim>\<open>SS\<close>, y with diaeresis and
  the micro sign become characters above 255); no text with one of them has the upper
  case \<^verbatim>\<open>.MKV\<close> either way, which is all the script asks.
\<close>

definition upper_char :: "char \<Rightarrow> char" where
  "upper_char c =
     (let n = (of_char c :: nat)
      in if (97 \<le> n \<and> n \<le> 122) \<or> (224 \<le> n \<and> n \<le> 254 \<and> n \<noteq> 247) then char_of (n - 32) else c)"

definition py_upper :: "string \<Rightarrow> string" where
  "py_upper s = map upper_char s"

text \<open>
  The attributes of an \<^verbatim>\<open>AVExtractor\<close>. An attribute that \<^verbatim>\<open>__init__\<close> sets on some
  paths only is an option: reading it where it was not set raises an AttributeError.
  \<open>mkv_audio_track\<close> stands for the search for the audio track line in
  \<^verbatim>\<open>self.__mkvmerge_probe_out\<close>, which \<^verbatim>\<open>extract_audio\<close> and \<^verbatim>\<open>decode_audio\<close> run.
\<close>

record extractor =
  path :: string
  disc_type :: "string option"
  disc_title :: int
  mplayer_input_args :: "string list"
  video_dimensions :: "(int \<times> int) option"
  video_framerate :: "rat option"
  audio_channels :: int
  audio_codec :: string
  chap_start :: "int option"
  chap_end :: "int option"
  is_matroska :: bool
  has_chapters :: bool
  attachment_cnt :: nat
  has_subtitles :: bool
  mkv_subtitle_tracknum :: "int option"
  mkv_audio_track :: "string option"

text \<open>
  The frame rate \<^verbatim>\<open>__init__\<close> makes of the probed float (lines 78 to 82):
  \<^verbatim>\<open>abs( math.ceil( v ) / 1.001 - v ) / v < 0.00001\<close> decides between
  \<^verbatim>\<open>Fraction( math.ceil( v ) * 1000, 1001 )\<close> and \<^verbatim>\<open>Fraction( v )\<close>. The division
  by \<open>v\<close> raises when \<open>v\<close> is zero. (The probed text is \<^verbatim>\<open>\d+\.\d+\<close>, so \<open>v\<close> is not
  negative and not a NaN; a text so long that its float is infinite is left out.)
\<close>

definition normalize_framerate :: "'f float_ops \<Rightarrow> 'f \<Rightarrow> error + rat" where
  "normalize_framerate F v =
     (let c = \<lceil>fl_value F v\<rceil>;
          d = fl_abs F (fl_sub F (fl_div F (fl_of_int F c) (fl_lit F (1001 / 1000))) v)
      in if fl_value F v = 0 then Inl ZeroDivisionError
         else if fl_value F (fl_div F d v) < fl_value F (fl_lit F (1 / 100000))
         then fraction (c * 1000) 1001
         else Inr (fl_value F v))"

definition probe_command :: "string list \<Rightarrow> string list" where
  "probe_command input_args =
     [''mplayer'', ''-nocorrect-pts'', ''-vc'', '','', ''-vo'', ''null'', ''-ac'', ''ffmp3,'', ''-ao'', ''null'',
      ''-endpos'', ''1''] @ input_args"

definition chapter_args :: "int option \<Rightarrow> int option \<Rightarrow> string list" where
  "chapter_args cs ce =
     (case cs of
        Some s \<Rightarrow> [''-chapter'', py_str s @ (case ce of Some e \<Rightarrow> ''-'' @ py_str e | None \<Rightarrow> [])]
      | None \<Rightarrow> (case ce of Some e \<Rightarrow> [''-chapter'', ''-'' @ py_str e] | None \<Rightarrow> []))"

definition AVExtractor_init ::
  "'f world \<Rightarrow> string \<Rightarrow> string option \<Rightarrow> int \<Rightarrow> int option \<Rightarrow> int option \<Rightarrow> int option \<Rightarrow> int option
     \<Rightarrow> extractor run" where
  "AVExtractor_init W pth dtype title cs ce maid msid =
     (let input_args =
            (case maid of Some a \<Rightarrow> [''-aid'', py_str a] | None \<Rightarrow> [])
            @ (case msid of Some a \<Rightarrow> [''-sid'', py_str a] | None \<Rightarrow> [])
            @ (if dtype = Some ''dvd'' then [''-dvd-device'', pth, ''dvd://'' @ py_str title]
               else if dtype = Some ''bluray'' then [''-bluray-device'', pth, ''bluray://'' @ py_str title]
               else [pth])
      in bind_run (check_call W (probe_command input_args)) (\<lambda>_.
         bind_run
           (if dtype \<noteq> Some ''bluray'' then
              (case w_probe_video W of
                 None \<Rightarrow> raise AttributeError
               | Some (codec, w, h, fps) \<Rightarrow>
                   (case normalize_framerate (w_float_ops W) fps of
                      Inl e \<Rightarrow> raise e
                    | Inr r \<Rightarrow> ret (Some (w, h), Some r)))
            else ret (None, None)) (\<lambda>(dims, framerate).
         bind_run
           (case w_probe_audio W of None \<Rightarrow> raise AttributeError | Some (rate, ch) \<Rightarrow> ret ch) (\<lambda>channels.
         bind_run
           (case w_probe_audio_codec W of None \<Rightarrow> raise AttributeError | Some c \<Rightarrow> ret c) (\<lambda>acodec.
         let x = \<lparr> path = w_abspath W pth, disc_type = dtype, disc_title = title,
                   mplayer_input_args = input_args @ chapter_args cs ce,
                   video_dimensions = dims, video_framerate = framerate,
                   audio_channels = channels, audio_codec = acodec,
                   chap_start = cs, chap_end = ce,
                   is_matroska = (py_upper (snd (splitext pth)) = ''.MKV''),
                   has_chapters = False, attachment_cnt = 0, has_subtitles = False,
                   mkv_subtitle_tracknum = None, mkv_audio_track = None \<rparr>
         in if dtype = Some ''dvd'' then
              ret (x\<lparr> has_chapters := True, attachment_cnt := 0,
                      has_subtitles := w_probe_dvd_subtitles W \<rparr>)
            else if is_matroska x then
              bind_run (check_call W [''mkvmerge'', ''--identify'', pth]) (\<lambda>_.
                ret (x\<lparr> has_chapters := w_mkv_chapters W, attachment_cnt := w_mkv_attachments W,
                        has_subtitles := (w_mkv_subtitle_track W \<noteq> None),
                        mkv_subtitle_tracknum := w_mkv_subtitle_track W,
                        mkv_audio_track := w_mkv_audio_track W \<rparr>))
            else ret x)))))"






section \<open>Multiplexers\<close>




section \<open>The main program\<close>














text \<open>
  An arithmetic for examples: the rationals, computed without rounding. \<^verbatim>\<open>round\<close>
  rounds to the nearest integer and a half to the even one, as Python does; \<open>fl_str\<close>
  is right for whole numbers, which is all the examples print.
\<close>

definition round_half_even :: "rat \<Rightarrow> int" where
  "round_half_even r =
     (let f = \<lfloor>r\<rfloor>; d = r - of_int f
      in if d < 1 / 2 then f else if 1 / 2 < d then f + 1 else if even f then f else f + 1)"

definition exact_ops :: "rat float_ops" where
  "exact_ops =
     \<lparr> fl_lit = (\<lambda>r. r), fl_of_int = of_int, fl_add = (+), fl_sub = (-), fl_mul = (*), fl_div = (/),
       fl_abs = abs, fl_value = (\<lambda>r. r), fl_round = (\<lambda>r. Inr (round_half_even r)),
       fl_str = (\<lambda>r. py_str \<lfloor>r\<rfloor> @ ''.0'') \<rparr>"

text \<open>
  A world for examples: a Matroska file with six chapters, H.264 video of 1280 by 720
  probed at 23.976 frames per second and Vorbis audio, on a machine where every
  program exits with status 0.
\<close>

definition example_world :: "rat world" where
  "example_world =
     \<lparr> w_float_ops = exact_ops,
       w_cpu_count = 4, w_which = (\<lambda>p. False), w_abspath = (\<lambda>p. ''/home/user/'' @ p),
       w_work_dir = ''/tmp/qtranscode-x'', w_attachment_files = [],
       w_exit_status = (\<lambda>c. 0),
       w_probe_video = Some (''ffh264'', 1280, 720, 23976 / 1000),
       w_probe_audio = Some (48000, 2), w_probe_audio_codec = Some ''ffvorbis'',
       w_probe_dvd_subtitles = False, w_mkv_chapters = True, w_mkv_attachments = 0,
       w_mkv_subtitle_track = None, w_mkv_audio_track = Some ''1'',
       w_chapters_text = ''CHAPTER01=00:00:00.000\<newline>CHAPTER01NAME=Chapter 01\<newline>CHAPTER02=00:05:00.500\<newline>CHAPTER02NAME=Chapter 02\<newline>CHAPTER03=00:10:10.250\<newline>CHAPTER03NAME=Intro\<newline>CHAPTER04=00:20:00.000\<newline>CHAPTER04NAME=Chapter 04\<newline>CHAPTER05=01:00:00.001\<newline>CHAPTER05NAME=Chapter 05\<newline>CHAPTER06=01:30:00.000\<newline>CHAPTER06NAME=Chapter 06\<newline>'' \<rparr>"

text \<open>
  The events of the first part of a run, before anything is transcoded: the probes
  (\<^verbatim>\<open>mplayer\<close>, \<^verbatim>\<open>mkvmerge --identify\<close>) and the extractions (\<^verbatim>\<open>mkvextract\<close>, \<^verbatim>\<open>dvdxchap\<close>,
  \<^verbatim>\<open>mencoder\<close> for the subtitles of a DVD, the chapter file written). No process of a
  decode and encode pair and no multiplexer is among them.
\<close>

definition early_event :: "event \<Rightarrow> bool" where
  "early_event e =
     (case e of
        Call cmd \<Rightarrow>
          take 1 cmd \<in> set [[''mplayer''], [''mkvextract''], [''dvdxchap''], [''mencoder'']]
          \<or> take 2 cmd = [''mkvmerge'', ''--identify'']
      | WriteFile f t \<Rightarrow> True
      | Spawn st cmd \<Rightarrow> False
      | Reap st \<Rightarrow> False)"

text \<open>A run of early events only that has not returned a status.\<close>

definition early_run :: "'a run \<Rightarrow> bool" where
  "early_run m =
     (list_all early_event (fst m)
      \<and> (case snd m of Inl (Return n) \<Rightarrow> False | Inl (Raise e) \<Rightarrow> True | Inr x \<Rightarrow> True))"


definition zero_rate_world :: "rat world" where
  "zero_rate_world = example_world \<lparr> w_probe_video := Some (''ffh264'', 1280, 720, 0) \<rparr>"

section \<open>Theorems\<close>

lemma pass_asserts_both: "\<not> pass_asserts (Some p) (Some sp)"
  by (simp add: pass_asserts_def)

subsection \<open>Two-pass calling convention of the video builders\<close>

text \<open>
  Claim C1 says that a video builder called with a pass number and a stats path returns
  the pass-1 or pass-2 command. The first assertion of every builder rejects exactly
  this call: whatever the other arguments are, a pass number together with a stats path
  raises an AssertionError, for all four builders. (\<^verbatim>\<open>main\<close> calls them this way
  whenever \<^verbatim>\<open>--two-pass\<close> is given.)
\<close>

theorem two_pass_call_raises_assertion:
  "get_encode_av1_command F out_path dims rate q b speed (Some p) (Some sp) = Inl AssertionError
   \<and> get_encode_h264_command F out_path dims rate sar q b speed (Some p) (Some sp) = Inl AssertionError
   \<and> get_encode_vp9_command F n out_path dims rate q b speed (Some p) (Some sp) = Inl AssertionError
   \<and> get_encode_vp8_command F n out_path dims rate q b speed (Some p) (Some sp) = Inl AssertionError"
  by (simp add: get_encode_av1_command_def get_encode_h264_command_def
        get_encode_vp9_command_def get_encode_vp8_command_def pass_asserts_both)

text \<open>
  The only pass-1 call the assertions let through has no stats path; the AV1 command it
  returns ends in \<^verbatim>\<open>'--stat-file', None\<close>.
\<close>

lemma av1_pass1_without_stats:
  "get_encode_av1_command F out_path dims rate None None speed (Some 1) None =
     Inr (map Str
            [''SvtAv1EncApp'', ''-i'', ''stdin'', ''-w'', py_str (fst dims), ''-h'', py_str (snd dims),
             ''--fps-num'', py_str (numerator rate), ''--fps-denom'', py_str (denominator rate),
             ''--preset'', str_opt_int speed]
          @ [Str ''-b'', Str devnull, Str ''--irefresh-type'', Str ''2'', Str ''--pass'', Str ''1'',
             Str ''--stat-file'', PyNone])"
  by (simp add: get_encode_av1_command_def pass_asserts_def of_opt_def)

subsection \<open>Quality together with bit rate in the vpxenc builders\<close>

text \<open>
  Claim C5 says that the VP9 and the VP8 builder, given a quality and a bit rate, return
  a command with the constrained-quality flag, a cq-level flag and a target-bitrate flag.
  The VP9 builder returns a command whose only rate-control argument is the
  target-bitrate flag: the two later assignments to \<^verbatim>\<open>qual_args\<close> overwrite what was
  there. (The rounding of the quality still runs first and can raise.)
\<close>

theorem vp9_quality_and_bitrate_keeps_only_bitrate:
  "get_encode_vp9_command F n out_path dims rate (Some q) (Some b) speed None None =
     (case fl_round F (fl_sub F (fl_lit F 63) (fl_mul F q (fl_lit F (63 / 10)))) of
        Inl e \<Rightarrow> Inl e
      | Inr i \<Rightarrow>
          Inr (vpx_command ''vp9'' n dims rate [''--output='' @ out_path, ''--passes=1'']
                 [''--target-bitrate='' @ fl_str F b] (vpx_speed_args speed)))"
  by (simp add: get_encode_vp9_command_def pass_asserts_def vp9_qual_args_def str_round_def
        vpx_pass_args_def split: sum.splits)

text \<open>The VP8 builder, the sibling, keeps all three.\<close>

lemma vp8_quality_and_bitrate_keeps_all:
  "get_encode_vp8_command F n out_path dims rate (Some q) (Some b) speed None None =
     (case fl_round F (fl_sub F (fl_lit F 63) (fl_mul F q (fl_lit F (63 / 10)))) of
        Inl e \<Rightarrow> Inl e
      | Inr i \<Rightarrow>
          Inr (vpx_command ''vp8'' n dims rate [''--output='' @ out_path, ''--passes=1'']
                 [''--end-usage=cq'', ''--cq-level='' @ py_str i, ''--target-bitrate='' @ fl_str F b]
                 (vpx_speed_args speed)))"
  by (simp add: get_encode_vp8_command_def pass_asserts_def vp8_qual_args_def str_round_def
        vpx_pass_args_def split: sum.splits)

subsection \<open>Exit statuses in the pipe transcoder\<close>

text \<open>
  Claim C2 says that the transcoder waits on both processes even when one is already
  known to have failed. When the decoder's exit status is non-zero the function raises
  right after the decoder's \<^verbatim>\<open>wait()\<close>: the encoder has been started and is never
  waited on. The events of a run, for commands without \<^verbatim>\<open>None\<close>:
\<close>

theorem transcode_events:
  "fst (transcode dec_status enc_status (map Str dec_cmd) (map Str enc_cmd)) =
     (if dec_status \<noteq> 0
      then [Spawn Decoder (map Str dec_cmd), Spawn Encoder (map Str enc_cmd), Reap Decoder]
      else [Spawn Decoder (map Str dec_cmd), Spawn Encoder (map Str enc_cmd), Reap Decoder, Reap Encoder])"
  by (auto simp: transcode_def has_none_def)

text \<open>The result is what the claim says: success exactly when both statuses are zero.\<close>

lemma transcode_result:
  "snd (transcode dec_status enc_status (map Str dec_cmd) (map Str enc_cmd)) =
     (if dec_status \<noteq> 0 then Inl (Exception ''Error occurred in decoding process!'')
      else if enc_status \<noteq> 0 then Inl (Exception ''Error occurred in encoding process!'')
      else Inr ())"
  by (auto simp: transcode_def has_none_def)

subsection \<open>Digits, padding and the patterns on the lines of a chapter file\<close>

lemma digit_char_is_digit: "d < 10 \<Longrightarrow> is_digit (digit_char d)"
  by (simp add: is_digit_def digit_char_def)

lemma digit_val_digit_char: "d < 10 \<Longrightarrow> digit_val (digit_char d) = d"
  by (simp add: digit_val_def digit_char_def)

lemma str_nat_digits: "list_all is_digit (str_nat n)"
proof (induction n rule: str_nat.induct)
  case (1 n)
  show ?case
  proof (cases "n < 10")
    case True
    then show ?thesis by (simp add: str_nat.simps [of n] digit_char_is_digit)
  next
    case False
    with 1 show ?thesis by (simp add: str_nat.simps [of n] digit_char_is_digit)
  qed
qed

lemma str_nat_nonempty: "str_nat n \<noteq> []"
  by (subst str_nat.simps) simp

lemma digits_val_snoc: "digits_val (s @ [c]) = 10 * digits_val s + digit_val c"
  by (simp add: digits_val_def)

lemma digits_val_str_nat: "digits_val (str_nat n) = n"
proof (induction n rule: str_nat.induct)
  case (1 n)
  show ?case
  proof (cases "n < 10")
    case True
    then show ?thesis by (simp add: str_nat.simps [of n] digits_val_def digit_val_digit_char)
  next
    case False
    with 1 have "digits_val (str_nat (n div 10)) = n div 10" by simp
    with False show ?thesis
      by (simp add: str_nat.simps [of n] digits_val_snoc digit_val_digit_char)
  qed
qed

lemma length_str_nat_1: "n < 10 \<Longrightarrow> length (str_nat n) = 1"
  by (simp add: str_nat.simps [of n])

lemma length_str_nat_2: "10 \<le> n \<Longrightarrow> n < 100 \<Longrightarrow> length (str_nat n) = 2"
  by (simp add: str_nat.simps [of n] length_str_nat_1)

lemma length_str_nat_3: "100 \<le> n \<Longrightarrow> n < 1000 \<Longrightarrow> length (str_nat n) = 3"
  by (simp add: str_nat.simps [of n] length_str_nat_2)

lemma length_str_nat_ge2: "10 \<le> n \<Longrightarrow> 2 \<le> length (str_nat n)"
  using str_nat_nonempty [of "n div 10"]
  by (cases "str_nat (n div 10)") (simp_all add: str_nat.simps [of n])

lemma is_digit_not_sign: "is_digit c \<Longrightarrow> c \<noteq> CHR ''+'' \<and> c \<noteq> CHR ''-''"
  by (auto simp: is_digit_def)

lemma is_digit_zero: "is_digit (CHR ''0'')"
  by (simp add: is_digit_def)

lemma zfill_digits:
  "s \<noteq> [] \<Longrightarrow> list_all is_digit s \<Longrightarrow> zfill w s = replicate (w - length s) (CHR ''0'') @ s"
  by (cases s) (auto simp: zfill_def dest: is_digit_not_sign)

lemma digits_val_zeros: "digits_val (replicate k (CHR ''0'') @ s) = digits_val s"
proof -
  have "foldl (\<lambda>a c. 10 * a + digit_val c) 0 (replicate k (CHR ''0'')) = 0"
    by (induction k) (simp_all add: digit_val_def)
  then show ?thesis by (simp add: digits_val_def)
qed

lemma py_str_nonneg: "0 \<le> i \<Longrightarrow> py_str i = str_nat (nat i)"
  by (simp add: py_str_def)

lemma zf_eq: "0 \<le> i \<Longrightarrow> zfill w (py_str i) = replicate (w - length (str_nat (nat i))) (CHR ''0'') @ str_nat (nat i)"
  by (simp add: py_str_nonneg zfill_digits str_nat_nonempty str_nat_digits)

lemma zf_digits: "0 \<le> i \<Longrightarrow> list_all is_digit (zfill w (py_str i))"
  using str_nat_digits [of "nat i"] by (auto simp: zf_eq is_digit_zero list_all_iff)

lemma zf_nonempty: "0 \<le> i \<Longrightarrow> zfill w (py_str i) \<noteq> []"
  by (simp add: zf_eq str_nat_nonempty)

lemma zf_val: "0 \<le> i \<Longrightarrow> py_int (zfill w (py_str i)) = i"
  by (simp add: zf_eq py_int_def digits_val_zeros digits_val_str_nat)

lemma zf_len2: "0 \<le> i \<Longrightarrow> i < 100 \<Longrightarrow> length (zfill 2 (py_str i)) = 2"
proof -
  assume a: "0 \<le> i" "i < 100"
  show ?thesis
  proof (cases "nat i < 10")
    case True
    with a show ?thesis by (simp add: zf_eq length_str_nat_1)
  next
    case False
    with a have "length (str_nat (nat i)) = 2" by (intro length_str_nat_2) auto
    with a show ?thesis by (simp add: zf_eq)
  qed
qed

lemma zf_len3: "0 \<le> i \<Longrightarrow> i < 1000 \<Longrightarrow> length (zfill 3 (py_str i)) = 3"
proof -
  assume a: "0 \<le> i" "i < 1000"
  consider "nat i < 10" | "10 \<le> nat i" "nat i < 100" | "100 \<le> nat i" "nat i < 1000"
    using a by linarith
  then show ?thesis
  proof cases
    case 1
    with a show ?thesis by (simp add: zf_eq length_str_nat_1)
  next
    case 2
    then have "length (str_nat (nat i)) = 2" by (rule length_str_nat_2)
    with a show ?thesis by (simp add: zf_eq)
  next
    case 3
    then have "length (str_nat (nat i)) = 3" by (rule length_str_nat_3)
    with a show ?thesis by (simp add: zf_eq)
  qed
qed

lemma span_digits_append:
  "list_all is_digit ds \<Longrightarrow> rest = [] \<or> \<not> is_digit (hd rest) \<Longrightarrow> span_digits (ds @ rest) = (ds, rest)"
  by (cases rest) (auto simp: span_digits_def list_all_iff takeWhile_append dropWhile_append)

lemma strip_prefix_append [simp]: "strip_prefix p (p @ r) = Some r"
  by (simp add: strip_prefix_def)

lemma match_hms_append:
  assumes "length a = 2" "length b = 2" "length c = 2" "length d = 3"
    and "list_all is_digit a" "list_all is_digit b" "list_all is_digit c" "list_all is_digit d"
  shows "match_hms (a @ '':'' @ b @ '':'' @ c @ ''.'' @ d @ rest) = Some (a, b, c, d, rest)"
  using assms by (simp add: match_hms_def nth_append)

lemma time_fields:
  "timedelta (t div 3600000) (t div 60000 mod 60) (t div 1000 mod 60) (t mod 1000) = 1000 * t"
proof -
  have a: "t div 3600000 = (t div 60000) div 60" by (simp add: zdiv_zmult2_eq)
  have b: "t div 60000 = (t div 1000) div 60" by (simp add: zdiv_zmult2_eq)
  have c: "(t div 60000) div 60 * 60 + t div 60000 mod 60 = t div 60000" by simp
  have d: "(t div 1000) div 60 * 60 + t div 1000 mod 60 = t div 1000" by simp
  have e: "t div 3600000 * 60 + t div 60000 mod 60 = t div 60000"
    unfolding a by (rule c)
  have f: "t div 60000 * 60 + t div 1000 mod 60 = t div 1000"
    unfolding b by (rule d)
  have g: "((t div 3600000 * 60 + t div 60000 mod 60) * 60 + t div 1000 mod 60) = t div 1000"
    unfolding e by (rule f)
  define q r where "q = t div 1000" and "r = t mod 1000"
  have t: "t = q * 1000 + r" by (simp add: q_def r_def)
  have "q * 1000000 + r * 1000 = 1000 * t"
    by (subst t) simp
  then show ?thesis
    unfolding timedelta_def g q_def r_def .
qed

lemma format_time_render_ms:
  assumes "0 \<le> t" "t < 86400000"
  shows "format_time (1000 * t) = render_ms t"
proof -
  have s: "td_seconds (1000 * t) = t div 1000"
    using assms by (simp add: td_seconds_def)
  have "1000 * t mod 1000000 = 1000 * (t mod 1000)"
    using mult_mod_right [of 1000 t 1000] by simp
  then have m: "td_microseconds (1000 * t) div 1000 = t mod 1000"
    by (simp add: td_microseconds_def)
  have a: "t div 1000 div 3600 = t div 3600000" by (simp add: zdiv_zmult2_eq)
  have b: "t div 1000 div 60 = t div 60000" by (simp add: zdiv_zmult2_eq)
  show ?thesis
    by (simp only: format_time_def render_ms_def s m a b)
qed

lemma is_digit_simps [simp]:
  "\<not> is_digit (CHR ''='')" "\<not> is_digit (CHR ''N'')" "\<not> is_digit (CHR '':'')" "\<not> is_digit (CHR ''.'')"
  by (simp_all add: is_digit_def)

lemma match_time_Timestamp:
  assumes "0 \<le> i" "0 \<le> t" "t < 360000000"
  shows "match_time (render_line (Timestamp i t)) =
           Some (zfill 2 (py_str i), zfill 2 (py_str (t div 3600000)), zfill 2 (py_str (t div 60000 mod 60)),
                 zfill 2 (py_str (t div 1000 mod 60)), zfill 3 (py_str (t mod 1000)))"
proof -
  let ?a = "zfill 2 (py_str (t div 3600000))" and ?b = "zfill 2 (py_str (t div 60000 mod 60))"
  let ?c = "zfill 2 (py_str (t div 1000 mod 60))" and ?d = "zfill 3 (py_str (t mod 1000))"
  have h: "0 \<le> t div 3600000" "t div 3600000 < 100" using assms by auto
  have sp: "span_digits (zfill 2 (py_str i) @ ''='' @ render_ms t) = (zfill 2 (py_str i), ''='' @ render_ms t)"
    by (rule span_digits_append) (simp_all add: zf_digits assms)
  have hms: "match_hms (?a @ '':'' @ ?b @ '':'' @ ?c @ ''.'' @ ?d @ []) = Some (?a, ?b, ?c, ?d, [])"
    by (rule match_hms_append) (simp_all add: zf_len2 zf_len3 zf_digits h assms)
  have sp1: "strip_prefix ''='' (''='' @ render_ms t) = Some (render_ms t)"
    by (rule strip_prefix_append)
  have l: "render_line (Timestamp i t) = ''CHAPTER'' @ (zfill 2 (py_str i) @ ''='' @ render_ms t)"
    by simp
  have r: "render_ms t = ?a @ '':'' @ ?b @ '':'' @ ?c @ ''.'' @ ?d @ []"
    by (simp add: render_ms_def)
  show ?thesis
    unfolding match_time_def l strip_prefix_append option.case sp prod.case sp1
    using hms zf_nonempty [OF assms(1), of 2] by (simp add: r at_end_def)
qed

lemma strip_prefix_Nil [simp]: "strip_prefix [] s = Some s"
  by (simp add: strip_prefix_def)

lemma strip_prefix_Cons [simp]:
  "strip_prefix (c # p) (x # s) = (if c = x then strip_prefix p s else None)"
  by (simp add: strip_prefix_def)

lemma strip_prefix_Cons_Nil [simp]: "strip_prefix (c # p) [] = None"
  by (simp add: strip_prefix_def)

lemma head_split:
  "0 \<le> i \<Longrightarrow> \<not> is_digit x \<Longrightarrow>
   span_digits (zfill 2 (py_str i) @ x # xs) = (zfill 2 (py_str i), x # xs)"
  by (rule span_digits_append) (simp_all add: zf_digits)

lemma match_title_1_Timestamp:
  "0 \<le> i \<Longrightarrow> match_title_1 (render_line (Timestamp i t)) = None"
  by (simp add: match_title_1_def head_split)

lemma match_title_2_Timestamp:
  "0 \<le> i \<Longrightarrow> match_title_2 (render_line (Timestamp i t)) = None"
  by (simp add: match_title_2_def head_split)

lemma match_time_AutoTitle:
  "0 \<le> i \<Longrightarrow> match_time (render_line (AutoTitle i n)) = None"
  by (simp add: match_time_def head_split)

lemma match_time_FreeTitle:
  "0 \<le> i \<Longrightarrow> match_time (render_line (FreeTitle i s)) = None"
  by (simp add: match_time_def head_split)

lemma match_title_1_AutoTitle:
  assumes "0 \<le> i" "0 \<le> n"
  shows "match_title_1 (render_line (AutoTitle i n)) = Some (zfill 2 (py_str i), zfill 2 (py_str n))"
proof -
  have sp: "span_digits (zfill 2 (py_str n) @ []) = (zfill 2 (py_str n), [])"
    by (rule span_digits_append) (simp_all add: zf_digits assms)
  have pre: "strip_prefix ''NAME=Chapter '' (''NAME=Chapter '' @ zfill 2 (py_str n)) = Some (zfill 2 (py_str n))"
    by (rule strip_prefix_append)
  show ?thesis
    using sp pre zf_nonempty [OF assms(1), of 2] zf_nonempty [OF assms(2), of 2]
    by (simp add: match_title_1_def head_split assms at_end_def)
qed

lemma no_newline: "\<not> list_ex is_linebreak s \<Longrightarrow> CHR 0x0A \<notin> set s"
  by (auto simp: list_ex_iff is_linebreak_def)

lemma match_title_2_FreeTitle:
  assumes "0 \<le> i" "\<not> list_ex is_linebreak s"
  shows "match_title_2 (render_line (FreeTitle i s)) = Some (zfill 2 (py_str i), s)"
proof -
  have nl: "CHR 0x0A \<notin> set s" using assms(2) by (rule no_newline)
  then have tw: "takeWhile (\<lambda>c. c \<noteq> CHR 0x0A) s = s" "dropWhile (\<lambda>c. c \<noteq> CHR 0x0A) s = []"
    by (auto simp: takeWhile_eq_all_conv)
  have pre: "strip_prefix ''NAME='' (''NAME='' @ s) = Some s"
    by (rule strip_prefix_append)
  show ?thesis
    using pre tw zf_nonempty [OF assms(1), of 2]
    by (simp add: match_title_2_def head_split assms at_end_def)
qed

lemma strip_prefix_longer:
  "strip_prefix (p @ q) (p @ s) = strip_prefix q s"
  by (simp add: strip_prefix_def)

lemma match_title_1_FreeTitle:
  assumes "0 \<le> i" "\<not> list_ex is_linebreak s" "\<not> auto_label s"
  shows "match_title_1 (render_line (FreeTitle i s)) = None"
proof -
  have nl: "CHR 0x0A \<notin> set s" using assms(2) by (rule no_newline)
  have pre: "strip_prefix ''NAME=Chapter '' (''NAME='' @ s) = strip_prefix ''Chapter '' s"
    using strip_prefix_longer [of "''NAME=''" "''Chapter ''" s] by simp
  have "\<not> (takeWhile is_digit ds \<noteq> [] \<and> at_end (dropWhile is_digit ds))"
    if ds: "strip_prefix ''Chapter '' s = Some ds" for ds
  proof
    assume a: "takeWhile is_digit ds \<noteq> [] \<and> at_end (dropWhile is_digit ds)"
    have "set ds \<subseteq> set s"
      using ds by (auto simp: strip_prefix_def split: if_splits dest: in_set_dropD)
    then have "CHR 0x0A \<notin> set (dropWhile is_digit ds)"
      using nl set_dropWhileD by fastforce
    with a have "dropWhile is_digit ds = []" by (auto simp: at_end_def)
    then have "list_all is_digit ds" by (simp add: list_all_iff)
    moreover from a have "ds \<noteq> []" by auto
    ultimately show False using assms(3) ds by (simp add: auto_label_def)
  qed
  moreover have "match_title_1 (render_line (FreeTitle i s)) =
      (case strip_prefix ''Chapter '' s of
         None \<Rightarrow> None
       | Some r2 \<Rightarrow>
           (case span_digits r2 of
              (g2, rest) \<Rightarrow> if g2 \<noteq> [] \<and> at_end rest then Some (zfill 2 (py_str i), g2) else None))"
    using zf_nonempty [OF assms(1), of 2]
    by (simp add: match_title_1_def head_split assms)
  ultimately show ?thesis
    by (auto simp: span_digits_def split: option.splits)
qed

lemma match_title_2_AutoTitle:
  assumes "0 \<le> i" "0 \<le> n"
  shows "match_title_2 (render_line (AutoTitle i n)) = Some (zfill 2 (py_str i), ''Chapter '' @ zfill 2 (py_str n))"
proof -
  have "list_all is_digit (zfill 2 (py_str n))" using assms by (simp add: zf_digits)
  then have "\<not> list_ex is_linebreak (''Chapter '' @ zfill 2 (py_str n))"
    by (auto simp: list_ex_iff list_all_iff is_linebreak_def is_digit_def)
  from match_title_2_FreeTitle [OF assms(1) this] show ?thesis by simp
qed

lemma slice_line_record:
  assumes wf: "well_formed r" and day: "time_of_day cs ce t0 r"
  shows "slice_line cs ce oi (1000 * t0) (render_line r) =
           (if in_range cs ce (rec_index r) then render_line (rebase oi t0 r) @ [CHR 0x0A] else [])"
proof (cases r)
  case (Timestamp i t)
  with wf have b: "0 \<le> i" "0 \<le> t" "t < 360000000" by simp_all
  have v: "py_int (zfill 2 (py_str i)) = i" using b by (simp add: zf_val)
  have f: "timedelta (py_int (zfill 2 (py_str (t div 3600000)))) (py_int (zfill 2 (py_str (t div 60000 mod 60))))
             (py_int (zfill 2 (py_str (t div 1000 mod 60)))) (py_int (zfill 3 (py_str (t mod 1000)))) = 1000 * t"
    using b by (simp add: zf_val time_fields)
  show ?thesis
  proof (cases "in_range cs ce i")
    case True
    with day Timestamp have "0 \<le> t - t0" "t - t0 < 86400000" by simp_all
    then have "format_time (1000 * (t - t0)) = render_ms (t - t0)" by (rule format_time_render_ms)
    then have "format_time (1000 * t - 1000 * t0) = render_ms (t - t0)" by (simp add: algebra_simps)
    with True show ?thesis
      unfolding Timestamp slice_line_def match_time_Timestamp [OF b]
      by (simp add: v f)
  next
    case False
    then show ?thesis
      unfolding Timestamp slice_line_def match_time_Timestamp [OF b]
        match_title_1_Timestamp [OF b(1)] match_title_2_Timestamp [OF b(1)]
      by (simp add: v)
  qed
next
  case (AutoTitle i n)
  with wf have b: "0 \<le> i" "0 \<le> n" by simp_all
  have v: "py_int (zfill 2 (py_str i)) = i" "py_int (zfill 2 (py_str n)) = n"
    using b by (simp_all add: zf_val)
  show ?thesis
    unfolding AutoTitle slice_line_def match_time_AutoTitle [OF b(1)]
      match_title_1_AutoTitle [OF b] match_title_2_AutoTitle [OF b]
    by (simp add: v)
next
  case (FreeTitle i s)
  with wf have b: "0 \<le> i" "\<not> list_ex is_linebreak s" "\<not> auto_label s" by simp_all
  have v: "py_int (zfill 2 (py_str i)) = i" using b by (simp add: zf_val)
  show ?thesis
    unfolding FreeTitle slice_line_def match_time_FreeTitle [OF b(1)]
      match_title_1_FreeTitle [OF b] match_title_2_FreeTitle [OF b(1,2)]
    by (simp add: v)
qed

lemma digit_not_linebreak: "is_digit c \<Longrightarrow> \<not> is_linebreak c"
  by (auto simp: is_digit_def is_linebreak_def)

lemma digits_no_linebreak: "list_all is_digit ds \<Longrightarrow> \<not> list_ex is_linebreak ds"
  by (auto simp: list_all_iff list_ex_iff dest: digit_not_linebreak)

lemma render_ms_no_linebreak: "0 \<le> t \<Longrightarrow> \<not> list_ex is_linebreak (render_ms t)"
proof -
  assume t: "0 \<le> t"
  have "\<not> list_ex is_linebreak (zfill w (py_str (t div 3600000)))"
       "\<not> list_ex is_linebreak (zfill w (py_str (t div 60000 mod 60)))"
       "\<not> list_ex is_linebreak (zfill w (py_str (t div 1000 mod 60)))"
       "\<not> list_ex is_linebreak (zfill w (py_str (t mod 1000)))" for w
    using t by (simp_all add: digits_no_linebreak zf_digits)
  then show ?thesis
    by (simp add: render_ms_def is_linebreak_def)
qed

lemma render_line_no_linebreak:
  assumes "well_formed r"
  shows "\<not> list_ex is_linebreak (render_line r)"
proof (cases r)
  case (Timestamp i t)
  with assms have "\<not> list_ex is_linebreak (zfill 2 (py_str i))" "\<not> list_ex is_linebreak (render_ms t)"
    by (simp_all add: digits_no_linebreak zf_digits render_ms_no_linebreak)
  with Timestamp show ?thesis by (simp add: is_linebreak_def)
next
  case (AutoTitle i n)
  with assms have "\<not> list_ex is_linebreak (zfill 2 (py_str i))" "\<not> list_ex is_linebreak (zfill 2 (py_str n))"
    by (simp_all add: digits_no_linebreak zf_digits)
  with AutoTitle show ?thesis by (simp add: is_linebreak_def)
next
  case (FreeTitle i s)
  with assms have "\<not> list_ex is_linebreak (zfill 2 (py_str i))" "\<not> list_ex is_linebreak s"
    by (simp_all add: digits_no_linebreak zf_digits)
  with FreeTitle show ?thesis by (simp add: is_linebreak_def)
qed

lemma splitlines_line:
  "\<not> list_ex is_linebreak l \<Longrightarrow> splitlines (l @ CHR 0x0A # rest) = l # splitlines rest"
  by (induction l) (simp_all add: is_linebreak_def)

lemma split_on_line:
  "c \<notin> set l \<Longrightarrow> split_on c (l @ c # rest) = l # split_on c rest"
  by (induction l) auto

lemma render_chapters_Cons:
  "render_chapters (r # rs) = render_line r @ CHR 0x0A # render_chapters rs"
  by (simp add: render_chapters_def)

lemma splitlines_render:
  "list_all well_formed rs \<Longrightarrow> splitlines (render_chapters rs) = map render_line rs"
proof (induction rs)
  case Nil
  then show ?case by (simp add: render_chapters_def)
next
  case (Cons r rs)
  then show ?case
    by (simp add: render_chapters_Cons splitlines_line render_line_no_linebreak)
qed

lemma split_on_render:
  "list_all well_formed rs \<Longrightarrow> split_on (CHR 0x0A) (render_chapters rs) = map render_line rs @ [[]]"
proof (induction rs)
  case Nil
  then show ?case by (simp add: render_chapters_def)
next
  case (Cons r rs)
  then have "CHR 0x0A \<notin> set (render_line r)"
    by (simp add: no_newline render_line_no_linebreak)
  with Cons show ?case
    by (simp add: render_chapters_Cons split_on_line)
qed

lemma slice_lines_render:
  assumes "list_all well_formed rs" "list_all (time_of_day cs ce t0) rs"
  shows "slice_lines cs ce oi (1000 * t0) (map render_line rs) =
           render_chapters (map (rebase oi t0) (filter (\<lambda>r. in_range cs ce (rec_index r)) rs))"
  using assms
proof (induction rs)
  case Nil
  then show ?case by (simp add: render_chapters_def)
next
  case (Cons r rs)
  then show ?case
    by (simp add: slice_line_record render_chapters_Cons)
qed

lemma key_chars: "\<forall>c \<in> set (zfill 2 (py_str s)). is_digit c \<or> c = CHR ''-''"
proof (cases "0 \<le> s")
  case True
  then show ?thesis using zf_digits [of s 2] by (auto simp: list_all_iff)
next
  case False
  have "list_all is_digit (str_nat (nat (- s)))" by (rule str_nat_digits)
  with False show ?thesis
    by (auto simp: py_str_def zfill_def list_all_iff is_digit_zero)
qed

lemma strip_key:
  assumes "\<forall>c \<in> set K. is_digit c \<or> c = CHR ''-''" "list_all is_digit D"
    and "\<not> is_digit x" "x \<noteq> CHR ''-''"
  shows "strip_prefix (K @ ''='') (D @ x # xs) = (if K = D \<and> x = CHR ''='' then Some xs else None)"
  using assms
proof (induction K arbitrary: D)
  case Nil
  then show ?case by (cases D) auto
next
  case (Cons k K)
  then show ?case by (cases D) auto
qed

lemma zf_inj: "0 \<le> i \<Longrightarrow> (zfill 2 (py_str s) = zfill 2 (py_str i)) = (s = i)"
proof (cases "0 \<le> s")
  case True
  assume i: "0 \<le> i"
  show ?thesis
  proof
    assume "zfill 2 (py_str s) = zfill 2 (py_str i)"
    then have "py_int (zfill 2 (py_str s)) = py_int (zfill 2 (py_str i))" by (rule arg_cong)
    then show "s = i" by (simp only: zf_val [OF True] zf_val [OF i])
  next
    assume "s = i"
    then show "zfill 2 (py_str s) = zfill 2 (py_str i)" by (rule arg_cong)
  qed
next
  case False
  assume i: "0 \<le> i"
  have "zfill 2 (py_str s) = CHR ''-'' # replicate (2 - length (py_str s)) (CHR ''0'') @ str_nat (nat (- s))"
    using False by (simp add: py_str_def zfill_def)
  then have a: "hd (zfill 2 (py_str s)) = CHR ''-''" by (simp only: list.sel)
  have "list_all is_digit (zfill 2 (py_str i))" "zfill 2 (py_str i) \<noteq> []"
    using zf_digits [OF i, of 2] zf_nonempty [OF i, of 2] by blast+
  then have b: "is_digit (hd (zfill 2 (py_str i)))"
    by (cases "zfill 2 (py_str i)") simp_all
  have "zfill 2 (py_str s) \<noteq> zfill 2 (py_str i)"
  proof
    assume "zfill 2 (py_str s) = zfill 2 (py_str i)"
    with a b have "is_digit (CHR ''-'')" by (simp only:)
    then show False by (simp add: is_digit_def)
  qed
  moreover have "s \<noteq> i" using False i by linarith
  ultimately show ?thesis by (simp only:)
qed

lemma match_start_record:
  assumes "well_formed r"
  shows "match_start (zfill 2 (py_str s)) (render_line r) =
           (case r of
              Timestamp i t \<Rightarrow>
                if i = s
                then Some (zfill 2 (py_str (t div 3600000)), zfill 2 (py_str (t div 60000 mod 60)),
                           zfill 2 (py_str (t div 1000 mod 60)), zfill 3 (py_str (t mod 1000)))
                else None
            | _ \<Rightarrow> None)"
proof (cases r)
  case (Timestamp i t)
  with assms have b: "0 \<le> i" "0 \<le> t" "t < 360000000" by simp_all
  let ?a = "zfill 2 (py_str (t div 3600000))" and ?b = "zfill 2 (py_str (t div 60000 mod 60))"
  let ?c = "zfill 2 (py_str (t div 1000 mod 60))" and ?d = "zfill 3 (py_str (t mod 1000))"
  have h: "0 \<le> t div 3600000" "t div 3600000 < 100" using b by auto
  have hms: "match_hms (?a @ '':'' @ ?b @ '':'' @ ?c @ ''.'' @ ?d @ []) = Some (?a, ?b, ?c, ?d, [])"
    by (rule match_hms_append) (simp_all add: zf_len2 zf_len3 zf_digits h b)
  have r: "render_ms t = ?a @ '':'' @ ?b @ '':'' @ ?c @ ''.'' @ ?d @ []"
    by (simp add: render_ms_def)
  have sk: "strip_prefix (zfill 2 (py_str s) @ ''='') (zfill 2 (py_str i) @ CHR ''='' # render_ms t) =
        (if s = i then Some (render_ms t) else None)"
    using strip_key [OF key_chars zf_digits [OF b(1)], of "CHR ''=''" s 2 "render_ms t"]
    by (simp add: zf_inj b)
  show ?thesis
    using sk hms by (auto simp: Timestamp match_start_def r)
next
  case (AutoTitle i n)
  with assms have b: "0 \<le> i" by simp
  have "strip_prefix (zfill 2 (py_str s) @ ''='') (zfill 2 (py_str i) @ CHR ''N'' # xs) = None" for xs
    using strip_key [OF key_chars zf_digits [OF b], of "CHR ''N''" s 2 xs] by simp
  then show ?thesis by (simp add: AutoTitle match_start_def)
next
  case (FreeTitle i t)
  with assms have b: "0 \<le> i" by simp
  have "strip_prefix (zfill 2 (py_str s) @ ''='') (zfill 2 (py_str i) @ CHR ''N'' # xs) = None" for xs
    using strip_key [OF key_chars zf_digits [OF b], of "CHR ''N''" s 2 xs] by simp
  then show ?thesis by (simp add: FreeTitle match_start_def)
qed

lemma match_start_empty: "match_start key [] = None"
  by (simp add: match_start_def)

lemma first_match_render:
  assumes "list_all well_formed rs"
  shows "first_match (match_start (zfill 2 (py_str s))) (map render_line rs @ [[]]) =
           (case start_time (Some s) rs of
              None \<Rightarrow> None
            | Some t \<Rightarrow>
                Some (zfill 2 (py_str (t div 3600000)), zfill 2 (py_str (t div 60000 mod 60)),
                      zfill 2 (py_str (t div 1000 mod 60)), zfill 3 (py_str (t mod 1000))))"
  using assms
proof (induction rs)
  case Nil
  then show ?case by (simp add: match_start_empty)
next
  case (Cons r rs)
  then have "well_formed r" by simp
  from match_start_record [OF this, of s] Cons show ?case
    by (cases r) (simp_all del: render_line.simps)
qed

lemma start_time_bounds:
  "list_all well_formed rs \<Longrightarrow> start_time (Some s) rs = Some t \<Longrightarrow> 0 \<le> t \<and> t < 360000000"
proof (induction rs)
  case Nil
  then show ?case by simp
next
  case (Cons r rs)
  then show ?case by (cases r) (auto split: if_splits)
qed

lemma chapter_offsets_render:
  assumes "list_all well_formed rs"
  shows "chapter_offsets cs ce (render_chapters rs) =
           (case start_time cs rs of
              None \<Rightarrow> Inl (Exception ''Start chapter could not be found!'')
            | Some t0 \<Rightarrow> Inr (index_offset cs, 1000 * t0))"
proof (cases cs)
  case None
  then show ?thesis by (simp add: chapter_offsets_def index_offset_def)
next
  case (Some s)
  show ?thesis
  proof (cases "start_time (Some s) rs")
    case None
    then show ?thesis
      by (simp add: Some chapter_offsets_def search_start_def split_on_render assms first_match_render)
  next
    case (Some t)
    with assms have "0 \<le> t" "t < 360000000" using start_time_bounds by blast+
    then have "timedelta (py_int (zfill 2 (py_str (t div 3600000)))) (py_int (zfill 2 (py_str (t div 60000 mod 60))))
             (py_int (zfill 2 (py_str (t div 1000 mod 60)))) (py_int (zfill 3 (py_str (t mod 1000)))) = 1000 * t"
      by (simp add: zf_val time_fields)
    with Some show ?thesis
      by (simp add: \<open>cs = Some s\<close> chapter_offsets_def search_start_def split_on_render assms
            first_match_render index_offset_def)
  qed
qed

lemma new_chapters_render:
  assumes "list_all well_formed rs"
  shows "new_chapters cs ce (render_chapters rs) =
           (case start_time cs rs of
              None \<Rightarrow> Inl (Exception ''Start chapter could not be found!'')
            | Some t0 \<Rightarrow>
                Inr (slice_lines cs ce (index_offset cs) (1000 * t0) (map render_line rs)))"
  by (simp add: new_chapters_def chapter_offsets_render assms splitlines_render split: option.splits)

lemma slicer_on_records:
  assumes "list_all well_formed rs" "start_time cs rs = Some t0" "list_all (time_of_day cs ce t0) rs"
  shows "new_chapters cs ce (render_chapters rs) = Inr (render_chapters (slice_spec cs ce t0 rs))"
  by (simp add: new_chapters_render assms slice_lines_render slice_spec_def)


subsection \<open>Slicing a chapter file\<close>




text \<open>
  What the slicer prints is the time of day of the rebased time: the days of the
  \<^verbatim>\<open>timedelta\<close> are never read, so a time of 25 hours comes out as 1 hour. The
  theorems of this section leave such times out.
\<close>

lemma day_wrap: "new_chapters None None ''CHAPTER01=25:00:00.000\<newline>CHAPTER01NAME=Finale\<newline>''
     = Inr ''CHAPTER01=01:00:00.000\<newline>CHAPTER01NAME=Finale\<newline>''"
  by code_simp

subsection \<open>Slicing without a range\<close>

text \<open>
  Claim C6, as amended. For every well-formed chapter file whose timestamps are below 24
  hours, and in which every title of the form \<^verbatim>\<open>Chapter N\<close> has its number written
  the way \<^verbatim>\<open>zfill( 2 )\<close> writes it (these are the \<open>AutoTitle\<close> records), slicing
  without a range returns the file as it is, character for character.
\<close>

theorem unsliced_chapters_unchanged:
  assumes "list_all well_formed rs" "list_all (time_of_day None None 0) rs"
  shows "new_chapters None None (render_chapters rs) = Inr (render_chapters rs)"
proof -
  have "rebase 0 0 = id"
  proof (rule ext)
    fix r
    show "rebase 0 0 r = id r" by (cases r) simp_all
  qed
  then have "slice_spec None None 0 rs = rs"
    by (simp add: slice_spec_def index_offset_def in_range_def)
  with slicer_on_records [OF assms(1) _ assms(2)] show ?thesis by simp
qed

text \<open>An instance of C6, with a generated and a free title and the last time of the day.\<close>

theorem unsliced_chapters_unchanged_witness:
  "new_chapters None None
     ''CHAPTER01=00:00:00.000\<newline>CHAPTER01NAME=Chapter 01\<newline>CHAPTER02=00:05:00.500\<newline>CHAPTER02NAME=The Middle\<newline>CHAPTER03=23:59:59.999\<newline>CHAPTER03NAME=Chapter 03\<newline>''
   = Inr ''CHAPTER01=00:00:00.000\<newline>CHAPTER01NAME=Chapter 01\<newline>CHAPTER02=00:05:00.500\<newline>CHAPTER02NAME=The Middle\<newline>CHAPTER03=23:59:59.999\<newline>CHAPTER03NAME=Chapter 03\<newline>''"
proof -
  let ?three = "[Timestamp 1 0, AutoTitle 1 1, Timestamp 2 300500, FreeTitle 2 ''The Middle'',
                 Timestamp 3 86399999, AutoTitle 3 3]"
  have wf: "list_all well_formed ?three" by code_simp
  have day: "list_all (time_of_day None None 0) ?three" by (simp add: in_range_def)
  have r: "render_chapters ?three = ''CHAPTER01=00:00:00.000\<newline>CHAPTER01NAME=Chapter 01\<newline>CHAPTER02=00:05:00.500\<newline>CHAPTER02NAME=The Middle\<newline>CHAPTER03=23:59:59.999\<newline>CHAPTER03NAME=Chapter 03\<newline>''"
    by code_simp
  from unsliced_chapters_unchanged [OF wf day] show ?thesis by (simp only: r)
qed

text \<open>
  Claim C6 as stated takes any title for well-formed. A title \<^verbatim>\<open>Chapter 1\<close> is read
  as a generated label and written back with its number padded to two digits, so the
  text that comes out is not the text that went in.
\<close>

theorem unsliced_chapters_counterexample:
  "new_chapters None None ''CHAPTER01=00:00:00.000\<newline>CHAPTER01NAME=Chapter 1\<newline>''
     = Inr ''CHAPTER01=00:00:00.000\<newline>CHAPTER01NAME=Chapter 01\<newline>''
   \<and> ''CHAPTER01=00:00:00.000\<newline>CHAPTER01NAME=Chapter 01\<newline>''
       \<noteq> ''CHAPTER01=00:00:00.000\<newline>CHAPTER01NAME=Chapter 1\<newline>''"
  by code_simp


subsection \<open>The filter chain of the decode command\<close>

lemma py_str_chars: "c \<in> set (py_str i) \<Longrightarrow> is_digit c \<or> c = CHR ''-''"
  using str_nat_digits [of "nat i"] str_nat_digits [of "nat (- i)"]
  by (auto simp: py_str_def list_all_iff split: if_splits)

lemma py_str_no_comma [simp]: "CHR '','' \<notin> set (py_str i)"
  using py_str_chars [of "CHR '',''" i] by (auto simp: is_digit_def)

lemma py_str_nonempty [simp]: "py_str i \<noteq> []"
  by (simp add: py_str_def str_nat_nonempty)

lemma split_on_free: "c \<notin> set a \<Longrightarrow> split_on c a = [a]"
  by (induction a) auto

lemma split_on_join_Cons:
  "\<forall>st \<in> set (s # sts). c \<notin> set st \<Longrightarrow> split_on c (py_join [c] (s # sts)) = s # sts"
proof (induction sts arbitrary: s)
  case Nil
  then show ?case by (simp add: split_on_free)
next
  case (Cons t ts)
  then have "split_on c (py_join [c] (t # ts)) = t # ts" by simp
  moreover from Cons.prems have "c \<notin> set s" by simp
  ultimately show ?case by (simp add: split_on_line)
qed

lemma split_on_join:
  "sts \<noteq> [] \<Longrightarrow> \<forall>st \<in> set sts. c \<notin> set st \<Longrightarrow> split_on c (py_join [c] sts) = sts"
  by (cases sts) (simp_all only: split_on_join_Cons list.simps)

lemma ints4_no_comma [simp]: "CHR '','' \<notin> set (py_join '':'' (map py_str (list4 c)))"
  by (cases c) (simp add: list4_def)

lemma ints2_no_comma [simp]: "CHR '','' \<notin> set (py_join '':'' (map py_str (list2 c)))"
  by (simp add: list2_def)

lemma decode_filters_join:
  "decode_filters denoise pp scale crop deint ivtc =
     py_join '','' (code_pieces denoise pp scale crop deint ivtc)"
  by (cases denoise; cases pp; cases deint; cases ivtc; cases scale; cases crop)
     (simp_all add: decode_filters_def code_pieces_def)

lemma code_pieces_no_comma:
  "\<forall>st \<in> set (code_pieces denoise pp scale crop deint ivtc). CHR '','' \<notin> set st"
  by (cases denoise; cases pp; cases deint; cases ivtc; cases scale; cases crop)
     (simp_all add: code_pieces_def)

lemma filter_stages_decode:
  "filter_stages (decode_filters denoise pp scale crop deint ivtc) =
     code_pieces denoise pp scale crop deint ivtc"
proof -
  have "code_pieces denoise pp scale crop deint ivtc \<noteq> []" by (simp add: code_pieces_def)
  then show ?thesis
    unfolding filter_stages_def decode_filters_join
    using code_pieces_no_comma by (rule split_on_join)
qed


lemma stage_name_ints [simp]:
  "stage_name (''crop='' @ x) = ''crop''" "stage_name (''scale='' @ x) = ''scale''"
  "stage_name (''filmdint=fast=0'' @ x) = ''filmdint''"
  by (simp_all add: stage_name_def)



text \<open>
  The one piece of the string that is not a stage: with inverse telecine and no crop the
  telecine piece is followed by an empty one.
\<close>

lemma telecine_without_crop_leaves_empty_piece:
  "filter_stages (decode_filters False False None None False True) =
     [''format=i420'', ''filmdint=fast=0'', [], ''harddup'']"
  by (simp add: filter_stages_decode code_pieces_def)

subsection \<open>The output container\<close>

text \<open>
  Claim C9. For every output path and every value the argument parser lets through for
  \<^verbatim>\<open>--container\<close> (none, \<^verbatim>\<open>mkv\<close>, \<^verbatim>\<open>webm\<close>, \<^verbatim>\<open>mp4\<close>), the option has no
  effect: the output path stays as it is, the container is the lower-cased extension
  of the output path, and a path whose extension is not \<^verbatim>\<open>.mkv\<close>, \<^verbatim>\<open>.webm\<close> or
  \<^verbatim>\<open>.mp4\<close> makes \<^verbatim>\<open>main\<close> return 1.
\<close>

theorem container_from_extension:
  assumes "container \<in> {None, Some ''mkv'', Some ''webm'', Some ''mp4''}"
  shows "determine_container container output =
           (if py_lower (snd (splitext output)) \<in> {''.mkv'', ''.webm'', ''.mp4''}
            then Inr (output, py_lower (drop 1 (snd (splitext output))))
            else Inl (Return 1))"
  using assms by (auto simp: determine_container_def split: prod.splits)

text \<open>
  With \<^verbatim>\<open>--container mkv\<close>: an output \<^verbatim>\<open>film.avi\<close> is rejected, and an output
  \<^verbatim>\<open>film.webm\<close> stays a WebM file.
\<close>

theorem container_from_extension_witness:
  "determine_container (Some ''mkv'') ''film.avi'' = Inl (Return 1)
   \<and> determine_container (Some ''mkv'') ''film.webm'' = Inr (''film.webm'', ''webm'')"
proof -
  have c: "Some ''mkv'' \<in> {None, Some ''mkv'', Some ''webm'', Some ''mp4''}" by simp
  have a: "splitext ''film.avi'' = (''film'', ''.avi'')" by code_simp
  have b: "splitext ''film.webm'' = (''film'', ''.webm'')" by code_simp
  have l: "py_lower ''.avi'' = ''.avi''" "py_lower ''.webm'' = ''.webm''" "py_lower ''webm'' = ''webm''"
    by code_simp+
  from container_from_extension [OF c, of "''film.avi''"] container_from_extension [OF c, of "''film.webm''"]
  show ?thesis by (simp add: a b l)
qed

subsection \<open>The final frame rate\<close>



subsection \<open>Copying the audio\<close>




lemma early_ret [simp]: "early_run (ret x)"
  by (simp add: early_run_def ret_def)

lemma early_raise [simp]: "early_run (raise e)"
  by (simp add: early_run_def raise_def)

lemma early_of_result [simp]: "early_run (of_result r)"
  by (simp add: of_result_def split: sum.splits)


lemma early_write [simp]: "early_run ([WriteFile f t], Inr x)"
  by (simp add: early_run_def early_event_def)


















subsection \<open>The probed frame rate\<close>

text \<open>
  With an arithmetic that does not round, the two examples of the specification come
  out as it says, and so does every probed value other than zero.
\<close>

lemma ntsc_film_rate_snaps:
  "normalize_framerate exact_ops (23976 / 1000) = Inr (Fract 24000 1001)"
  by code_simp

lemma pal_rate_kept:
  "normalize_framerate exact_ops 25 = Inr 25"
  by code_simp

lemma normalize_framerate_exact:
  assumes "v \<noteq> 0"
  shows "normalize_framerate exact_ops v =
           Inr (if \<bar>of_int \<lceil>v\<rceil> / (1001 / 1000) - v\<bar> / v < 1 / 100000
                then of_int (\<lceil>v\<rceil> * 1000) / 1001 else v)"
  using assms
  by (simp add: normalize_framerate_def exact_ops_def Let_def fraction_def Fract_of_int_quotient)

text \<open>
  Claim C4. The claim is about every probed value, and the pattern \<^verbatim>\<open>\d+\.\d+\<close> of the
  probe admits \<^verbatim>\<open>0.000\<close>. There the normalized rate should be zero, by either branch
  of the claim; the code divides by the probed value to get the relative difference
  and raises \<^verbatim>\<open>ZeroDivisionError\<close>, whatever the floating-point arithmetic.
\<close>

theorem zero_frame_rate_raises:
  "fl_value F v = 0 \<Longrightarrow> normalize_framerate F v = Inl ZeroDivisionError"
  by (simp add: normalize_framerate_def Let_def)

text \<open>An instance of C4: the value zero of the exact arithmetic.\<close>

theorem zero_frame_rate_raises_witness:
  "fl_value exact_ops 0 = 0 \<and> normalize_framerate exact_ops 0 = Inl ZeroDivisionError"
proof -
  have "fl_value exact_ops 0 = 0"
    by (simp add: exact_ops_def)
  with zero_frame_rate_raises [of exact_ops 0] show ?thesis
    by simp
qed

text \<open>The error is not caught: the run ends with it, right after the probe.\<close>

lemma zero_frame_rate_stops_the_run:
  "AVExtractor_init zero_rate_world ''in.mkv'' None 1 None None None None =
     ([Call [''mplayer'', ''-nocorrect-pts'', ''-vc'', '','', ''-vo'', ''null'', ''-ac'', ''ffmp3,'',
             ''-ao'', ''null'', ''-endpos'', ''1'', ''in.mkv'']],
      Inl (Raise ZeroDivisionError))"
  by code_simp

end
